theory Spec2Isabelle
  imports Main
begin

section \<open>Python values, exceptions and the HTTP transport\<close>

text \<open>
  The two vendor clients (\<^verbatim>\<open>src/services/booking_client.py\<close>, called v1 below, and
  \<^verbatim>\<open>src/services/booking_client_v2.py\<close>, called v2) exchange dynamically typed data
  with the vendor: decoded JSON bodies and result dictionaries. They are modelled by one
  datatype of Python values. A dictionary is an association list in insertion order with
  unique keys; a lookup is \<open>map_of\<close>. JSON numbers are modelled as integers (no claim
  computes with fractions).
\<close>

datatype pyval =
    PNone
  | PBool bool
  | PInt int
  | PStr string
  | PList "pyval list"
  | PDict "(string \<times> pyval) list"

text \<open>Python truthiness, as used by \<^verbatim>\<open>if x:\<close> and \<^verbatim>\<open>if not x:\<close>.\<close>

fun truthy :: "pyval \<Rightarrow> bool" where
  "truthy PNone = False"
| "truthy (PBool b) = b"
| "truthy (PInt i) = (i \<noteq> 0)"
| "truthy (PStr s) = (s \<noteq> [])"
| "truthy (PList xs) = (xs \<noteq> [])"
| "truthy (PDict kvs) = (kvs \<noteq> [])"

fun type_name :: "pyval \<Rightarrow> string" where
  "type_name PNone = ''NoneType''"
| "type_name (PBool b) = ''bool''"
| "type_name (PInt i) = ''int''"
| "type_name (PStr s) = ''str''"
| "type_name (PList xs) = ''list''"
| "type_name (PDict kvs) = ''dict''"

text \<open>
  A vendor response as the clients read it: \<^verbatim>\<open>status_code\<close>,
  \<^verbatim>\<open>headers.get('content-type')\<close>, the outcome of \<^verbatim>\<open>json()\<close> (\<open>None\<close> when the
  body does not decode and \<^verbatim>\<open>json()\<close> raises), and the text that
  \<^verbatim>\<open>raise_for_status\<close> of the requests library gives the error it raises for this
  response.
\<close>

record response =
  status_code :: int
  content_type :: "string option"
  json_body :: "pyval option"
  error_text :: string

text \<open>
  Exceptions (all subclasses of \<^verbatim>\<open>Exception\<close>), each with the text of \<^verbatim>\<open>str(e)\<close>;
  \<open>HTTPError\<close> carries the response, as \<^verbatim>\<open>e.response\<close>. \<open>LibraryError\<close> stands
  for whatever a library call (requests, selenium, json) raises on its own.
\<close>

datatype exn =
    AttributeError string
  | TypeError string
  | ValueError string
  | KeyError string
  | HTTPError response
  | LibraryError string

fun str_exn :: "exn \<Rightarrow> string" where
  "str_exn (AttributeError m) = m"
| "str_exn (TypeError m) = m"
| "str_exn (ValueError m) = m"
| "str_exn (KeyError m) = m"
| "str_exn (HTTPError r) = error_text r"
| "str_exn (LibraryError m) = m"

datatype http_method = GET | POST | DELETE

record request =
  meth :: http_method
  url :: string
  params :: pyval
  payload :: pyval
  authorization :: "pyval option"

type_synonym exchange = "request \<times> (exn + response)"

text \<open>
  The world outside the client: the transport (what \<^verbatim>\<open>session.get/post/delete\<close>
  returns or raises for a request), the clock and the date library.
  \<open>now_timestamp\<close> is \<^verbatim>\<open>datetime.now().timestamp()\<close> rounded down to whole seconds
  (it is only compared with integers, so rounding down changes no comparison);
  \<open>strptime\<close> is \<^verbatim>\<open>datetime.strptime(date, '%Y-%m-%d')\<close>, returning the parsed day in
  ISO form or raising; \<open>today\<close> is \<^verbatim>\<open>datetime.now().strftime("%Y-%m-%d")\<close>;
  \<open>utcnow_iso\<close> is \<^verbatim>\<open>datetime.utcnow().isoformat()\<close>.
\<close>

record env =
  send :: "request \<Rightarrow> exn + response"
  now_timestamp :: int
  strptime :: "string \<Rightarrow> exn + string"
  today :: string
  utcnow_iso :: string
  range_start_iso :: string
  range_end_iso :: string

text \<open>Decimal text of a number, for the f-strings that print a status code or an id.\<close>

fun str_nat :: "nat \<Rightarrow> string" where
  "str_nat n = (if n < 10 then [''0123456789'' ! n]
                else str_nat (n div 10) @ [''0123456789'' ! (n mod 10)])"

declare str_nat.simps [simp del]

definition str_int :: "int \<Rightarrow> string" where
  "str_int i = (if i < 0 then CHR ''-'' # str_nat (nat (- i)) else str_nat (nat i))"

text \<open>
  \<^verbatim>\<open>d.get(key, default)\<close>: only a dictionary has the method; on any other value the
  call raises \<^verbatim>\<open>AttributeError\<close>.
\<close>

definition quoted :: "string \<Rightarrow> string" where
  "quoted s = [CHR 0x27] @ s @ [CHR 0x27]"

definition no_attribute :: "pyval \<Rightarrow> string \<Rightarrow> exn" where
  "no_attribute v a =
     AttributeError (quoted (type_name v) @ '' object has no attribute '' @ quoted a)"

definition dict_get :: "(string \<times> pyval) list \<Rightarrow> string \<Rightarrow> pyval \<Rightarrow> pyval" where
  "dict_get kvs k dflt = (case map_of kvs k of None \<Rightarrow> dflt | Some v \<Rightarrow> v)"

definition py_get :: "pyval \<Rightarrow> string \<Rightarrow> pyval \<Rightarrow> exn + pyval" where
  "py_get d k dflt =
     (case d of
        PDict kvs \<Rightarrow> Inr (dict_get kvs k dflt)
      | _ \<Rightarrow> Inl (no_attribute d ''get''))"

text \<open>\<^verbatim>\<open>d[key] = value\<close> on a dictionary.\<close>

fun dict_set :: "(string \<times> pyval) list \<Rightarrow> string \<Rightarrow> pyval \<Rightarrow> (string \<times> pyval) list" where
  "dict_set [] k v = [(k, v)]"
| "dict_set ((k', v') # kvs) k v =
     (if k' = k then (k, v) # kvs else (k', v') # dict_set kvs k v)"

text \<open>\<^verbatim>\<open>response.json()\<close> and \<^verbatim>\<open>response.raise_for_status()\<close> of the requests library.\<close>

definition json :: "response \<Rightarrow> exn + pyval" where
  "json r = (case json_body r of
               None \<Rightarrow> Inl (ValueError ''Expecting value'')
             | Some v \<Rightarrow> Inr v)"

definition raise_for_status :: "response \<Rightarrow> exn + unit" where
  "raise_for_status r =
     (if 400 \<le> status_code r \<and> status_code r < 600 then Inl (HTTPError r) else Inr ())"

definition opt_str :: "string option \<Rightarrow> pyval" where
  "opt_str s = (case s of None \<Rightarrow> PNone | Some t \<Rightarrow> PStr t)"

definition opt_int :: "int option \<Rightarrow> pyval" where
  "opt_int s = (case s of None \<Rightarrow> PNone | Some t \<Rightarrow> PInt t)"

text \<open>Reading a result dictionary.\<close>

definition result_get :: "exn + pyval \<Rightarrow> string \<Rightarrow> pyval option" where
  "result_get r k = (case r of Inr (PDict kvs) \<Rightarrow> map_of kvs k | _ \<Rightarrow> None)"

definition is_success :: "exn + pyval \<Rightarrow> bool" where
  "is_success r = (result_get r ''success'' = Some (PBool True))"

definition is_failure :: "exn + pyval \<Rightarrow> bool" where
  "is_failure r = (result_get r ''success'' = Some (PBool False))"

section \<open>Client v1 (\<^verbatim>\<open>booking_client.py\<close>)\<close>

record client =
  is_authenticated :: bool
  current_account :: pyval

definition BASE_URL :: string where
  "BASE_URL = ''https://x.tudelft.nl''"

definition v1_request :: "http_method \<Rightarrow> string \<Rightarrow> pyval \<Rightarrow> pyval \<Rightarrow> request" where
  "v1_request m u ps body =
     \<lparr>meth = m, url = u, params = ps, payload = body, authorization = None\<rparr>"

definition not_authenticated :: pyval where
  "not_authenticated =
     PDict [(''success'', PBool False),
            (''error'', PStr ''Not authenticated. Please login first.'')]"

definition v1_error :: "pyval \<Rightarrow> pyval" where
  "v1_error m = PDict [(''success'', PBool False), (''error'', m)]"

definition location_map :: "string \<Rightarrow> string option" where
  "location_map = map_of [(''Fitness'', ''20061''), (''X1'', ''20045''), (''X3'', ''20047'')]"

text \<open>
  \<^verbatim>\<open>response.json() if response.headers.get('content-type') == 'application/json' else {}\<close>
\<close>

definition error_data :: "response \<Rightarrow> exn + pyval" where
  "error_data r =
     (if content_type r = Some ''application/json'' then json r else Inr (PDict []))"

text \<open>
  \<^verbatim>\<open>create_booking\<close> of v1. The \<^verbatim>\<open>try\<close> block is \<open>create_booking_try\<close>; it returns
  what the block returns or raises, with the exchanges made with the vendor.
\<close>

definition create_booking_response ::
  "string \<Rightarrow> string \<Rightarrow> string \<Rightarrow> string option \<Rightarrow> response \<Rightarrow> exn + pyval" where
  "create_booking_response location date time_slot sub_location r =
     (if status_code r = 201 \<or> status_code r = 200 then
        (case json r of
           Inl e \<Rightarrow> Inl e
         | Inr data \<Rightarrow>
             (case py_get data ''id'' PNone of
                Inl e \<Rightarrow> Inl e
              | Inr bid \<Rightarrow>
                  Inr (PDict [(''success'', PBool True),
                              (''message'', PStr ''Booking created successfully''),
                              (''booking'',
                                 PDict [(''id'', bid), (''booking_id'', bid),
                                        (''date'', PStr date), (''time'', PStr time_slot),
                                        (''location'', PStr location),
                                        (''sub_location'', opt_str sub_location)])])))
      else if status_code r = 409 then
        Inr (v1_error (PStr ''Slot already booked or no longer available''))
      else
        (case error_data r of
           Inl e \<Rightarrow> Inl e
         | Inr ed \<Rightarrow>
             (case py_get ed ''message''
                     (PStr (''Booking failed: '' @ str_int (status_code r))) of
                Inl e \<Rightarrow> Inl e
              | Inr m \<Rightarrow> Inr (v1_error m))))"

definition booking_data ::
  "string \<Rightarrow> string \<Rightarrow> string \<Rightarrow> string option \<Rightarrow> string option \<Rightarrow> pyval" where
  "booking_data product_id date time_slot slot_id resource_id =
     (let d0 = [(''productId'', PStr product_id), (''date'', PStr date),
                (''startTime'', PStr time_slot), (''participantAmount'', PInt 1)];
          d1 = (if truthy (opt_str slot_id) then dict_set d0 ''slotId'' (opt_str slot_id)
                else d0);
          d2 = (if truthy (opt_str resource_id)
                then dict_set d1 ''resourceId'' (opt_str resource_id) else d1)
      in PDict d2)"

definition create_booking_try ::
  "env \<Rightarrow> string \<Rightarrow> string \<Rightarrow> string \<Rightarrow> string option \<Rightarrow> string option \<Rightarrow> string option
   \<Rightarrow> (exn + pyval) \<times> exchange list" where
  "create_booking_try w location date time_slot sub_location slot_id resource_id =
     (case location_map location of
        None \<Rightarrow> (Inr (v1_error (PStr (''Invalid location: '' @ location))), [])
      | Some product_id \<Rightarrow>
          (let rq = v1_request POST (BASE_URL @ ''/api/bookings'') PNone
                      (booking_data product_id date time_slot slot_id resource_id)
           in case send w rq of
                Inl e \<Rightarrow> (Inl e, [(rq, Inl e)])
              | Inr r \<Rightarrow>
                  (create_booking_response location date time_slot sub_location r,
                   [(rq, Inr r)])))"

definition create_booking ::
  "client \<Rightarrow> env \<Rightarrow> string \<Rightarrow> string \<Rightarrow> string \<Rightarrow> string option \<Rightarrow> string option
   \<Rightarrow> string option \<Rightarrow> (exn + pyval) \<times> exchange list" where
  "create_booking c w location date time_slot sub_location slot_id resource_id =
     (if \<not> is_authenticated c then (Inr not_authenticated, [])
      else
        (case create_booking_try w location date time_slot sub_location slot_id resource_id of
           (Inl e, log) \<Rightarrow>
             (Inr (v1_error (PStr (''Error creating booking: '' @ str_exn e))), log)
         | (Inr res, log) \<Rightarrow> (Inr res, log)))"

text \<open>
  Iterating a value (\<^verbatim>\<open>for x in v\<close>): a list gives its elements, a string its
  characters, a dictionary its keys; nothing else is iterable.
\<close>

definition not_iterable :: "pyval \<Rightarrow> exn" where
  "not_iterable v = TypeError (quoted (type_name v) @ '' object is not iterable'')"

definition py_iter :: "pyval \<Rightarrow> exn + pyval list" where
  "py_iter v =
     (case v of
        PList xs \<Rightarrow> Inr xs
      | PStr s \<Rightarrow> Inr (map (\<lambda>ch. PStr [ch]) s)
      | PDict kvs \<Rightarrow> Inr (map (\<lambda>kv. PStr (fst kv)) kvs)
      | _ \<Rightarrow> Inl (not_iterable v))"

text \<open>A loop body run over a list, stopping at the first exception.\<close>

fun map_exn :: "('a \<Rightarrow> exn + 'b) \<Rightarrow> 'a list \<Rightarrow> exn + 'b list" where
  "map_exn f [] = Inr []"
| "map_exn f (x # xs) =
     (case f x of
        Inl e \<Rightarrow> Inl e
      | Inr y \<Rightarrow> (case map_exn f xs of Inl e \<Rightarrow> Inl e | Inr ys \<Rightarrow> Inr (y # ys)))"

text \<open>\<^verbatim>\<open>needle in v\<close> for a string needle.\<close>

fun is_infix :: "string \<Rightarrow> string \<Rightarrow> bool" where
  "is_infix p [] = (p = [])"
| "is_infix p (ch # cs) = (take (length p) (ch # cs) = p \<or> is_infix p cs)"

definition py_contains :: "string \<Rightarrow> pyval \<Rightarrow> exn + bool" where
  "py_contains needle v =
     (case v of
        PStr s \<Rightarrow> Inr (is_infix needle s)
      | PList xs \<Rightarrow> Inr (PStr needle \<in> set xs)
      | PDict kvs \<Rightarrow> Inr (needle \<in> set (map fst kvs))
      | _ \<Rightarrow> Inl (TypeError (''argument of type '' @ quoted (type_name v)
                              @ '' is not iterable'')))"

text \<open>\<^verbatim>\<open>len(v)\<close>.\<close>

definition py_len :: "pyval \<Rightarrow> exn + int" where
  "py_len v =
     (case v of
        PStr s \<Rightarrow> Inr (int (length s))
      | PList xs \<Rightarrow> Inr (int (length xs))
      | PDict kvs \<Rightarrow> Inr (int (length kvs))
      | _ \<Rightarrow> Inl (TypeError (''object of type '' @ quoted (type_name v)
                              @ '' has no len()'')))"

text \<open>\<^verbatim>\<open>get_available_slots\<close> of v1.\<close>

definition resource_map :: "string \<Rightarrow> (string \<Rightarrow> string option) option" where
  "resource_map =
     map_of [(''X1'', map_of [(''A'', ''4''), (''B'', ''5'')]),
             (''X3'', map_of [(''A'', ''16534''), (''B'', ''16535'')])]"

definition slots_params :: "string \<Rightarrow> string \<Rightarrow> string \<Rightarrow> string option \<Rightarrow> pyval" where
  "slots_params product_id location date sub_location =
     (let p0 = [(''productId'', PStr product_id), (''date'', PStr date)]
      in case sub_location of
           None \<Rightarrow> PDict p0
         | Some sl \<Rightarrow>
             if truthy (PStr sl) \<and> location \<in> set [''X1'', ''X3''] then
               (case resource_map location of
                  None \<Rightarrow> PDict p0
                | Some rm \<Rightarrow>
                    (case rm sl of
                       None \<Rightarrow> PDict p0
                     | Some resource_id \<Rightarrow>
                         if truthy (PStr resource_id)
                         then PDict (dict_set p0 ''resourceId'' (PStr resource_id))
                         else PDict p0))
             else PDict p0)"

definition parse_slot :: "pyval \<Rightarrow> exn + pyval" where
  "parse_slot slot =
     (case slot of
        PDict kvs \<Rightarrow>
          Inr (PDict [(''time'', dict_get kvs ''startTime'' PNone),
                      (''end_time'', dict_get kvs ''endTime'' PNone),
                      (''available'', dict_get kvs ''availableSpots'' (PInt 0)),
                      (''total'', dict_get kvs ''totalSpots'' (PInt 0)),
                      (''slot_id'', dict_get kvs ''id'' PNone),
                      (''resource_id'', dict_get kvs ''resourceId'' PNone)])
      | _ \<Rightarrow> Inl (no_attribute slot ''get''))"

definition slots_response ::
  "string \<Rightarrow> string \<Rightarrow> string option \<Rightarrow> response \<Rightarrow> exn + pyval" where
  "slots_response location date sub_location r =
     (if status_code r = 200 then
        (case json r of
           Inl e \<Rightarrow> Inl e
         | Inr data \<Rightarrow>
             (case py_get data ''slots'' (PList []) of
                Inl e \<Rightarrow> Inl e
              | Inr raw \<Rightarrow>
                  (case py_iter raw of
                     Inl e \<Rightarrow> Inl e
                   | Inr items \<Rightarrow>
                       (case map_exn parse_slot items of
                          Inl e \<Rightarrow> Inl e
                        | Inr available_slots \<Rightarrow>
                            Inr (PDict [(''success'', PBool True),
                                        (''location'', PStr location),
                                        (''sub_location'', opt_str sub_location),
                                        (''date'', PStr date),
                                        (''slots'', PList available_slots),
                                        (''count'', PInt (int (length available_slots)))])))))
      else
        Inr (v1_error (PStr (''Failed to fetch available slots: ''
                             @ str_int (status_code r)))))"

definition slots_request :: "string \<Rightarrow> string \<Rightarrow> string \<Rightarrow> string option \<Rightarrow> request" where
  "slots_request product_id location date sub_location =
     v1_request GET (BASE_URL @ ''/api/bookings/available'')
       (slots_params product_id location date sub_location) PNone"

definition get_available_slots_try ::
  "env \<Rightarrow> string \<Rightarrow> string \<Rightarrow> string option \<Rightarrow> (exn + pyval) \<times> exchange list" where
  "get_available_slots_try w location date sub_location =
     (case location_map location of
        None \<Rightarrow> (Inr (v1_error (PStr (''Invalid location: '' @ location))), [])
      | Some product_id \<Rightarrow>
          (let rq = slots_request product_id location date sub_location
           in case send w rq of
                Inl e \<Rightarrow> (Inl e, [(rq, Inl e)])
              | Inr r \<Rightarrow> (slots_response location date sub_location r, [(rq, Inr r)])))"

definition get_available_slots ::
  "client \<Rightarrow> env \<Rightarrow> string \<Rightarrow> string \<Rightarrow> string option \<Rightarrow> (exn + pyval) \<times> exchange list" where
  "get_available_slots c w location date sub_location =
     (if \<not> is_authenticated c then (Inr not_authenticated, [])
      else
        (case get_available_slots_try w location date sub_location of
           (Inl e, log) \<Rightarrow>
             (Inr (v1_error (PStr (''Error fetching slots: '' @ str_exn e))), log)
         | (Inr res, log) \<Rightarrow> (Inr res, log)))"

text \<open>\<^verbatim>\<open>_parse_sub_location\<close> and \<^verbatim>\<open>get_current_bookings\<close> of v1.\<close>

definition parse_sub_location :: "pyval \<Rightarrow> exn + pyval" where
  "parse_sub_location product_description =
     (if \<not> truthy product_description then Inr PNone
      else
        (case py_contains '' A'' product_description of
           Inl e \<Rightarrow> Inl e
         | Inr True \<Rightarrow> Inr (PStr ''A'')
         | Inr False \<Rightarrow>
             (case py_contains '' B'' product_description of
                Inl e \<Rightarrow> Inl e
              | Inr True \<Rightarrow> Inr (PStr ''B'')
              | Inr False \<Rightarrow> Inr PNone)))"

definition parse_booking :: "pyval \<Rightarrow> exn + pyval" where
  "parse_booking booking =
     (case booking of
        PDict kvs \<Rightarrow>
          (case parse_sub_location (dict_get kvs ''productDescription'' PNone) of
             Inl e \<Rightarrow> Inl e
           | Inr sub \<Rightarrow>
               Inr (PDict [(''id'', dict_get kvs ''id'' PNone),
                           (''booking_id'', dict_get kvs ''id'' PNone),
                           (''date'', dict_get kvs ''startDate'' PNone),
                           (''start_time'', dict_get kvs ''startTime'' PNone),
                           (''end_time'', dict_get kvs ''endTime'' PNone),
                           (''location'', dict_get kvs ''productDescription'' PNone),
                           (''sub_location'', sub),
                           (''resource_id'', dict_get kvs ''resourceId'' PNone),
                           (''status'', PStr ''confirmed''),
                           (''can_cancel'', dict_get kvs ''canCancel'' (PBool False)),
                           (''participants'', dict_get kvs ''participantAmount'' (PInt 1))]))
      | _ \<Rightarrow> Inl (no_attribute booking ''get''))"

definition bookings_response :: "response \<Rightarrow> exn + pyval" where
  "bookings_response r =
     (if status_code r = 200 then
        (case json r of
           Inl e \<Rightarrow> Inl e
         | Inr data \<Rightarrow>
             (case py_get data ''bookings'' (PList []) of
                Inl e \<Rightarrow> Inl e
              | Inr raw \<Rightarrow>
                  (case py_iter raw of
                     Inl e \<Rightarrow> Inl e
                   | Inr items \<Rightarrow>
                       (case map_exn parse_booking items of
                          Inl e \<Rightarrow> Inl e
                        | Inr bookings \<Rightarrow>
                            Inr (PDict [(''success'', PBool True),
                                        (''bookings'', PList bookings),
                                        (''count'', PInt (int (length bookings)))])))))
      else
        Inr (v1_error (PStr (''Failed to fetch bookings: '' @ str_int (status_code r)))))"

definition get_current_bookings_try :: "env \<Rightarrow> bool \<Rightarrow> (exn + pyval) \<times> exchange list" where
  "get_current_bookings_try w include_past =
     (let ps = (if \<not> include_past then dict_set [] ''from'' (PStr (today w)) else []);
          rq = v1_request GET (BASE_URL @ ''/api/bookings/my-bookings'') (PDict ps) PNone
      in case send w rq of
           Inl e \<Rightarrow> (Inl e, [(rq, Inl e)])
         | Inr r \<Rightarrow> (bookings_response r, [(rq, Inr r)]))"

definition get_current_bookings ::
  "client \<Rightarrow> env \<Rightarrow> bool \<Rightarrow> (exn + pyval) \<times> exchange list" where
  "get_current_bookings c w include_past =
     (if \<not> is_authenticated c then (Inr not_authenticated, [])
      else
        (case get_current_bookings_try w include_past of
           (Inl e, log) \<Rightarrow>
             (Inr (v1_error (PStr (''Error fetching bookings: '' @ str_exn e))), log)
         | (Inr res, log) \<Rightarrow> (Inr res, log)))"

text \<open>\<^verbatim>\<open>cancel_booking\<close> of v1.\<close>

definition cancel_response :: "string \<Rightarrow> response \<Rightarrow> exn + pyval" where
  "cancel_response booking_id r =
     (if status_code r = 200 then
        Inr (PDict [(''success'', PBool True),
                    (''message'', PStr ''Booking cancelled successfully''),
                    (''booking_id'', PStr booking_id)])
      else if status_code r = 404 then
        Inr (v1_error (PStr ''Booking not found''))
      else if status_code r = 400 then
        (case error_data r of
           Inl e \<Rightarrow> Inl e
         | Inr ed \<Rightarrow>
             (case py_get ed ''message'' (PStr ''Cannot cancel this booking'') of
                Inl e \<Rightarrow> Inl e
              | Inr m \<Rightarrow> Inr (v1_error m)))
      else
        Inr (v1_error (PStr (''Failed to cancel booking: '' @ str_int (status_code r)))))"

definition cancel_request :: "string \<Rightarrow> request" where
  "cancel_request booking_id =
     v1_request DELETE (BASE_URL @ ''/api/bookings/'' @ booking_id) PNone PNone"

definition cancel_booking_try :: "env \<Rightarrow> string \<Rightarrow> (exn + pyval) \<times> exchange list" where
  "cancel_booking_try w booking_id =
     (let rq = cancel_request booking_id
      in case send w rq of
           Inl e \<Rightarrow> (Inl e, [(rq, Inl e)])
         | Inr r \<Rightarrow> (cancel_response booking_id r, [(rq, Inr r)]))"

definition cancel_booking :: "client \<Rightarrow> env \<Rightarrow> string \<Rightarrow> (exn + pyval) \<times> exchange list" where
  "cancel_booking c w booking_id =
     (if \<not> is_authenticated c then (Inr not_authenticated, [])
      else
        (case cancel_booking_try w booking_id of
           (Inl e, log) \<Rightarrow>
             (Inr (v1_error (PStr (''Error cancelling booking: '' @ str_exn e))), log)
         | (Inr res, log) \<Rightarrow> (Inr res, log)))"

text \<open>
  \<^verbatim>\<open>login\<close> of v1. The client is mutated inside the \<^verbatim>\<open>try\<close> block, so every
  branch returns the client as it stands when the block returns or raises.
\<close>

definition login_response ::
  "client \<Rightarrow> string \<Rightarrow> response \<Rightarrow> (exn + pyval) \<times> client" where
  "login_response c username r =
     (if status_code r = 200 then
        (case json r of
           Inl e \<Rightarrow> (Inl e, c)
         | Inr data \<Rightarrow>
             (let c1 = c\<lparr>is_authenticated := True\<rparr>
              in case data of
                   PDict kvs \<Rightarrow>
                     (let account = PDict [(''username'', PStr username),
                                           (''user_id'', dict_get kvs ''userId'' PNone),
                                           (''name'', dict_get kvs ''name'' PNone)];
                          c2 = c1\<lparr>current_account := account\<rparr>
                      in (Inr (PDict [(''success'', PBool True), (''user'', account),
                                      (''message'', PStr ''Login successful'')]), c2))
                 | _ \<Rightarrow> (Inl (no_attribute data ''get''), c1)))
      else
        (case error_data r of
           Inl e \<Rightarrow> (Inl e, c)
         | Inr ed \<Rightarrow>
             (case py_get ed ''message'' (PStr ''Invalid credentials'') of
                Inl e \<Rightarrow> (Inl e, c)
              | Inr m \<Rightarrow> (Inr (v1_error m), c))))"

definition login_try ::
  "client \<Rightarrow> env \<Rightarrow> string \<Rightarrow> string \<Rightarrow> (exn + pyval) \<times> client \<times> exchange list" where
  "login_try c w username password =
     (let rq1 = v1_request GET (BASE_URL @ ''/login'') PNone PNone
      in case send w rq1 of
           Inl e \<Rightarrow> (Inl e, c, [(rq1, Inl e)])
         | Inr login_page \<Rightarrow>
             if status_code login_page \<noteq> 200 then
               (Inr (v1_error (PStr (''Failed to access login page: ''
                                     @ str_int (status_code login_page)))),
                c, [(rq1, Inr login_page)])
             else
               (let rq2 = v1_request POST (BASE_URL @ ''/api/auth/login'') PNone
                            (PDict [(''username'', PStr username),
                                    (''password'', PStr password)])
                in case send w rq2 of
                     Inl e \<Rightarrow> (Inl e, c, [(rq1, Inr login_page), (rq2, Inl e)])
                   | Inr r \<Rightarrow>
                       (case login_response c username r of
                          (res, c') \<Rightarrow>
                            (res, c', [(rq1, Inr login_page), (rq2, Inr r)]))))"

definition login ::
  "client \<Rightarrow> env \<Rightarrow> string \<Rightarrow> string \<Rightarrow> (exn + pyval) \<times> client \<times> exchange list" where
  "login c w username password =
     (case login_try c w username password of
        (Inl e, c', log) \<Rightarrow>
          (Inr (v1_error (PStr (''Login failed: '' @ str_exn e))), c', log)
      | (Inr res, c', log) \<Rightarrow> (Inr res, c', log))"

section \<open>Client v2 (\<^verbatim>\<open>booking_client_v2.py\<close>)\<close>

text \<open>
  The state of the v2 client: the token, its expiry, the member data, and the
  \<^verbatim>\<open>Authorization\<close> header of the session (\<open>None\<close> when the header is not set; the
  header's text is \<^verbatim>\<open>Bearer\<close> followed by the token, and the model keeps the token).
  The fields hold whatever the decoded login data holds, so they are Python values.
\<close>

record client2 =
  institution :: string
  access_token :: pyval
  token_expires_at :: pyval
  user_data :: pyval
  auth_header :: "pyval option"

definition API_BASE_URL :: string where
  "API_BASE_URL = ''https://backbone-web-api.production.delft.delcom.nl''"

definition v2_request :: "client2 \<Rightarrow> http_method \<Rightarrow> string \<Rightarrow> pyval \<Rightarrow> pyval \<Rightarrow> request" where
  "v2_request c m u ps body =
     \<lparr>meth = m, url = u, params = ps, payload = body, authorization = auth_header c\<rparr>"

text \<open>
  \<^verbatim>\<open>current_time >= self.token_expires_at\<close>: a number compares with a number
  (\<^verbatim>\<open>True\<close> and \<^verbatim>\<open>False\<close> are 1 and 0); anything else raises \<^verbatim>\<open>TypeError\<close>.
\<close>

definition time_ge :: "int \<Rightarrow> pyval \<Rightarrow> exn + bool" where
  "time_ge t v =
     (case v of
        PInt i \<Rightarrow> Inr (t \<ge> i)
      | PBool b \<Rightarrow> Inr (t \<ge> (if b then 1 else 0))
      | _ \<Rightarrow> Inl (TypeError (''>= not supported between instances of float and ''
                              @ type_name v)))"

definition is_logged_in :: "client2 \<Rightarrow> env \<Rightarrow> exn + bool" where
  "is_logged_in c w =
     (if \<not> truthy (access_token c) then Inr False
      else if truthy (token_expires_at c) then
        (case time_ge (now_timestamp w) (token_expires_at c) of
           Inl e \<Rightarrow> Inl e
         | Inr expired \<Rightarrow> if expired then Inr False else Inr True)
      else Inr True)"

definition v2_message :: "string \<Rightarrow> pyval" where
  "v2_message m = PDict [(''success'', PBool False), (''message'', PStr m)]"

definition not_logged_in :: pyval where
  "not_logged_in = v2_message ''Not logged in''"

definition api_error :: "exn \<Rightarrow> response \<Rightarrow> pyval" where
  "api_error e r =
     PDict [(''success'', PBool False),
            (''message'', PStr (''API error: '' @ str_int (status_code r))),
            (''error'', PStr (str_exn e))]"

definition request_failed :: "exn \<Rightarrow> pyval" where
  "request_failed e = v2_message (''Request failed: '' @ str_exn e)"

text \<open>
  \<^verbatim>\<open>create_booking\<close> of v2. \<open>create_booking2_try\<close> is the body of the \<^verbatim>\<open>try\<close>
  block, \<open>create_booking2_except\<close> its two handlers.
\<close>

definition create_booking2_payload ::
  "pyval \<Rightarrow> int \<Rightarrow> int \<Rightarrow> string option \<Rightarrow> string option \<Rightarrow> int option \<Rightarrow> pyval" where
  "create_booking2_payload user_id slot_id product_id start_time end_time linked_product_id =
     (let p0 = [(''startDate'', opt_str start_time), (''endDate'', opt_str end_time),
                (''bookableProductId'', PInt product_id),
                (''invitedMemberEmails'', PList []), (''invitedGuests'', PList []),
                (''invitedOthers'', PList []),
                (''primaryPurchaseMessage'', PNone), (''secondaryPurchaseMessage'', PNone),
                (''clickedOnBook'', PBool True)];
          p1 = (if truthy (opt_int linked_product_id)
                then dict_set p0 ''bookableLinkedProductId'' (opt_int linked_product_id)
                else p0)
      in PDict [(''organizationId'', PNone), (''memberId'', user_id),
                (''bookingId'', PInt slot_id),
                (''primaryPurchaseMessage'', PNone), (''secondaryPurchaseMessage'', PNone),
                (''params'', PDict p1), (''dateOfRegistration'', PNone)])"

definition create_booking2_try :: "response \<Rightarrow> exn + pyval" where
  "create_booking2_try r =
     (case raise_for_status r of
        Inl e \<Rightarrow> Inl e
      | Inr _ \<Rightarrow>
          (case json r of
             Inl e \<Rightarrow> Inl e
           | Inr res \<Rightarrow>
               (case py_get res ''id'' PNone of
                  Inl e \<Rightarrow> Inl e
                | Inr bid \<Rightarrow>
                    Inr (PDict [(''success'', PBool True), (''booking_id'', bid),
                                (''message'', PStr ''Booking created successfully''),
                                (''data'', res)]))))"

definition create_booking2_except :: "exn \<Rightarrow> pyval" where
  "create_booking2_except e =
     (case e of
        HTTPError r \<Rightarrow>
          (if status_code r = 409 then v2_message ''Slot already booked''
           else api_error e r)
      | _ \<Rightarrow> request_failed e)"

definition create_booking2 ::
  "client2 \<Rightarrow> env \<Rightarrow> int \<Rightarrow> int \<Rightarrow> int option \<Rightarrow> string option \<Rightarrow> string option \<Rightarrow> int option
   \<Rightarrow> (exn + pyval) \<times> exchange list" where
  "create_booking2 c w slot_id product_id resource_id start_time end_time linked_product_id =
     (case is_logged_in c w of
        Inl e \<Rightarrow> (Inl e, [])
      | Inr False \<Rightarrow> (Inr not_logged_in, [])
      | Inr True \<Rightarrow>
          (case py_get (user_data c) ''id'' PNone of
             Inl e \<Rightarrow> (Inl e, [])
           | Inr user_id \<Rightarrow>
               if \<not> truthy user_id then (Inr (v2_message ''User ID not available''), [])
               else
                 (let rq = v2_request c POST (API_BASE_URL @ ''/participations'') PNone
                             (create_booking2_payload user_id slot_id product_id
                                start_time end_time linked_product_id)
                  in case send w rq of
                       Inl e \<Rightarrow> (Inr (create_booking2_except e), [(rq, Inl e)])
                     | Inr r \<Rightarrow>
                         (case create_booking2_try r of
                            Inl e \<Rightarrow> (Inr (create_booking2_except e), [(rq, Inr r)])
                          | Inr res \<Rightarrow> (Inr res, [(rq, Inr r)])))))"

text \<open>
  \<^verbatim>\<open>get_available_slots\<close> of v2. The query that the source passes through
  \<^verbatim>\<open>json.dumps\<close> is kept in structured form in the request.
\<close>

definition LOCATIONS :: "string \<Rightarrow> (int \<times> (string \<Rightarrow> int option) option) option" where
  "LOCATIONS =
     map_of [(''Fitness'', (20061, None)),
             (''X1'', (20045, Some (map_of [(''A'', 4), (''B'', 5)]))),
             (''X3'', (20047, Some (map_of [(''A'', 16534), (''B'', 16535)])))]"

definition search_query ::
  "env \<Rightarrow> int \<Rightarrow> (string \<Rightarrow> int option) option \<Rightarrow> string \<Rightarrow> string option \<Rightarrow> pyval" where
  "search_query w product_id resources day sub_location =
     (let start_date = day @ ''T00:00:00'';
          end_date = day @ ''T23:59:59.999999'';
          q0 = [(''startDate'', PStr (start_date @ ''Z'')),
                (''endDate'', PStr (end_date @ ''Z'')),
                (''productIds'', PDict [(''$in'', PList [PInt product_id])]),
                (''availableFromDate'', PDict [(''$gt'', PStr (utcnow_iso w @ ''Z''))]),
                (''availableTillDate'', PDict [(''$gte'', PStr (start_date @ ''Z''))])]
      in case sub_location of
           None \<Rightarrow> PDict q0
         | Some sl \<Rightarrow>
             if truthy (PStr sl) then
               (case resources of
                  None \<Rightarrow> PDict q0
                | Some rm \<Rightarrow>
                    (case rm sl of
                       None \<Rightarrow> PDict q0
                     | Some resource_id \<Rightarrow>
                         if truthy (PInt resource_id)
                         then PDict (dict_set q0 ''resourceIds''
                                       (PDict [(''$in'', PList [PInt resource_id])]))
                         else PDict q0))
             else PDict q0)"

definition slots2_try :: "response \<Rightarrow> exn + pyval" where
  "slots2_try r =
     (case raise_for_status r of
        Inl e \<Rightarrow> Inl e
      | Inr _ \<Rightarrow>
          (case json r of
             Inl e \<Rightarrow> Inl e
           | Inr data \<Rightarrow>
               (let slots =
                      (case data of
                         PDict kvs \<Rightarrow>
                           (case map_of kvs ''data'' of Some v \<Rightarrow> v | None \<Rightarrow> PList [])
                       | PList xs \<Rightarrow> PList xs
                       | _ \<Rightarrow> PList [])
                in Inr (PDict [(''success'', PBool True), (''slots'', slots),
                               (''count'',
                                  (case slots of PList xs \<Rightarrow> PInt (int (length xs))
                                   | _ \<Rightarrow> PInt 0)),
                               (''message'', PStr ''Retrieved available slots'')]))))"

definition v2_except :: "exn \<Rightarrow> pyval" where
  "v2_except e = (case e of HTTPError r \<Rightarrow> api_error e r | _ \<Rightarrow> request_failed e)"

definition slots2_request ::
  "client2 \<Rightarrow> env \<Rightarrow> int \<Rightarrow> (string \<Rightarrow> int option) option \<Rightarrow> string \<Rightarrow> string option
   \<Rightarrow> request" where
  "slots2_request c w product_id resources day sub_location =
     v2_request c GET (API_BASE_URL @ ''/bookable-slots'')
       (PDict [(''s'', search_query w product_id resources day sub_location),
               (''join'', PList [PStr ''linkedProduct'', PStr ''linkedProduct.translations'',
                                 PStr ''product'', PStr ''product.translations''])])
       PNone"

definition get_available_slots2 ::
  "client2 \<Rightarrow> env \<Rightarrow> string \<Rightarrow> string \<Rightarrow> string option \<Rightarrow> (exn + pyval) \<times> exchange list" where
  "get_available_slots2 c w location date sub_location =
     (case is_logged_in c w of
        Inl e \<Rightarrow> (Inl e, [])
      | Inr False \<Rightarrow> (Inr not_logged_in, [])
      | Inr True \<Rightarrow>
          (case LOCATIONS location of
             None \<Rightarrow> (Inr (v2_message (''Unknown location: '' @ location)), [])
           | Some (product_id, resources) \<Rightarrow>
               (case strptime w date of
                  Inl e \<Rightarrow> (Inl e, [])
                | Inr day \<Rightarrow>
                    (let rq = slots2_request c w product_id resources day sub_location
                     in case send w rq of
                          Inl e \<Rightarrow> (Inr (v2_except e), [(rq, Inl e)])
                        | Inr r \<Rightarrow>
                            (case slots2_try r of
                               Inl e \<Rightarrow> (Inr (v2_except e), [(rq, Inr r)])
                             | Inr res \<Rightarrow> (Inr res, [(rq, Inr r)]))))))"

text \<open>
  \<^verbatim>\<open>get_current_bookings\<close> of v2. \<open>range_start_iso\<close> and \<open>range_end_iso\<close> of the
  environment are the ISO texts of today's midnight and of the end of the day 28 days
  later, both computed by the source from \<^verbatim>\<open>datetime.now(timezone.utc)\<close>.
\<close>

definition bookings2_try :: "response \<Rightarrow> exn + pyval" where
  "bookings2_try r =
     (case raise_for_status r of
        Inl e \<Rightarrow> Inl e
      | Inr _ \<Rightarrow>
          (case json r of
             Inl e \<Rightarrow> Inl e
           | Inr result \<Rightarrow>
               (let bookings =
                      (case result of
                         PDict kvs \<Rightarrow>
                           (case map_of kvs ''data'' of
                              Some data \<Rightarrow>
                                (case data of
                                   PDict dkvs \<Rightarrow>
                                     (case map_of dkvs ''bookings'' of
                                        Some b \<Rightarrow> b
                                      | None \<Rightarrow> PList [])
                                 | PList xs \<Rightarrow> PList xs
                                 | _ \<Rightarrow> PList [])
                            | None \<Rightarrow> PList [])
                       | PList xs \<Rightarrow> PList xs
                       | _ \<Rightarrow> PList [])
                in case py_len bookings of
                     Inl e \<Rightarrow> Inl e
                   | Inr n \<Rightarrow>
                       Inr (PDict [(''success'', PBool True), (''bookings'', bookings),
                                   (''count'', PInt n),
                                   (''message'', PStr ''Retrieved bookings'')]))))"

definition filter_query :: "env \<Rightarrow> pyval \<Rightarrow> pyval" where
  "filter_query w user_id =
     PDict [(''$or'', PList [PDict [(''memberId'', user_id)],
                            PDict [(''invitedMemberId'', user_id)]]),
            (''booking.startDate'', PDict [(''$gte'', PStr (range_start_iso w))]),
            (''booking.endDate'', PDict [(''$lte'', PStr (range_end_iso w))])]"

definition get_current_bookings2 ::
  "client2 \<Rightarrow> env \<Rightarrow> bool \<Rightarrow> (exn + pyval) \<times> exchange list" where
  "get_current_bookings2 c w include_past =
     (case is_logged_in c w of
        Inl e \<Rightarrow> (Inl e, [])
      | Inr False \<Rightarrow> (Inr not_logged_in, [])
      | Inr True \<Rightarrow>
          (case py_get (user_data c) ''id'' PNone of
             Inl e \<Rightarrow> (Inl e, [])
           | Inr user_id \<Rightarrow>
               if \<not> truthy user_id then (Inr (v2_message ''User ID not available''), [])
               else
                 (let rq = v2_request c GET (API_BASE_URL @ ''/participations'')
                             (PDict [(''s'', filter_query w user_id),
                                     (''join'', PStr ''booking''),
                                     (''sort'', PStr ''booking.startDate,ASC''),
                                     (''fetchOptimizedCustomerDashboard'', PStr ''true''),
                                     (''fetchTicket'', PStr ''false'')])
                             PNone
                  in case send w rq of
                       Inl e \<Rightarrow> (Inr (v2_except e), [(rq, Inl e)])
                     | Inr r \<Rightarrow>
                         (case bookings2_try r of
                            Inl e \<Rightarrow> (Inr (v2_except e), [(rq, Inr r)])
                          | Inr res \<Rightarrow> (Inr res, [(rq, Inr r)])))))"

text \<open>\<^verbatim>\<open>cancel_booking\<close> of v2.\<close>

definition cancel2_try :: "response \<Rightarrow> exn + pyval" where
  "cancel2_try r =
     (case raise_for_status r of
        Inl e \<Rightarrow> Inl e
      | Inr _ \<Rightarrow>
          Inr (PDict [(''success'', PBool True),
                      (''message'', PStr ''Booking cancelled successfully'')]))"

definition cancel2_request :: "client2 \<Rightarrow> int \<Rightarrow> request" where
  "cancel2_request c booking_id =
     v2_request c DELETE (API_BASE_URL @ ''/participations/'' @ str_int booking_id)
       PNone PNone"

definition cancel_booking2 :: "client2 \<Rightarrow> env \<Rightarrow> int \<Rightarrow> (exn + pyval) \<times> exchange list" where
  "cancel_booking2 c w booking_id =
     (case is_logged_in c w of
        Inl e \<Rightarrow> (Inl e, [])
      | Inr False \<Rightarrow> (Inr not_logged_in, [])
      | Inr True \<Rightarrow>
          (let rq = cancel2_request c booking_id
           in case send w rq of
                Inl e \<Rightarrow> (Inr (v2_except e), [(rq, Inl e)])
              | Inr r \<Rightarrow>
                  (case cancel2_try r of
                     Inl e \<Rightarrow> (Inr (v2_except e), [(rq, Inr r)])
                   | Inr res \<Rightarrow> (Inr res, [(rq, Inr r)]))))"

text \<open>
  \<^verbatim>\<open>login_and_get_token\<close> of v2 drives a browser through Selenium. What the browser
  does is outside the client, so each browser step is given by its outcome:
  \<^item> \<open>chrome_start\<close>: \<^verbatim>\<open>webdriver.Chrome(options=options)\<close> raises (no driver exists then);
  \<^item> \<open>open_login\<close>: loading the page and clicking the OIDC login button raises;
  \<^item> \<open>css_found\<close>, \<open>xpath_found\<close>: the institution button is found by the CSS selector,
    or by the XPath fallback (a failed search raises and a bare \<^verbatim>\<open>except\<close> catches it);
  \<^item> \<open>enter_credentials\<close>: clicking the institution, typing the credentials, submitting
    and waiting for the redirect raises;
  \<^item> \<open>local_storage\<close>: what \<^verbatim>\<open>localStorage.getItem('delcom_auth')\<close> returns
    (\<open>None\<close> for \<^verbatim>\<open>null\<close>), or the script call raises;
  \<^item> \<open>json_loads\<close>: \<^verbatim>\<open>json.loads\<close>;
  \<^item> \<open>quit\<close>: \<^verbatim>\<open>driver.quit()\<close> in the \<^verbatim>\<open>finally\<close> clause raises.
  Printing to the console has no effect in the model.
\<close>

record browser =
  chrome_start :: "exn option"
  open_login :: "exn option"
  css_found :: bool
  xpath_found :: bool
  enter_credentials :: "exn option"
  local_storage :: "exn + string option"
  json_loads :: "string \<Rightarrow> exn + pyval"
  quit :: "exn option"

record institution_config =
  name :: string
  selector :: string
  text_match :: string

definition data_title :: "string \<Rightarrow> string" where
  "data_title t = ''[data-title='' @ [CHR 0x22] @ t @ [CHR 0x22] @ '']''"

definition INSTITUTIONS :: "string \<Rightarrow> institution_config option" where
  "INSTITUTIONS =
     map_of
       [(''tudelft'',
           \<lparr>name = ''Delft University of Technology'',
            selector = data_title ''Delft University of Technology'',
            text_match = ''TU Delft''\<rparr>),
        (''inholland'',
           \<lparr>name = ''Inholland University of Applied Sciences'',
            selector = data_title ''Inholland University of Applied Sciences'',
            text_match = ''Inholland''\<rparr>),
        (''thuas'',
           \<lparr>name = ''The Hague University of Applied Sciences (THUAS)'',
            selector = data_title ''The Hague University of Applied Sciences (THUAS)'',
            text_match = ''THUAS''\<rparr>)]"

text \<open>\<^verbatim>\<open>v[key]\<close> with a string key, and \<^verbatim>\<open>a + b\<close>.\<close>

definition py_index :: "pyval \<Rightarrow> string \<Rightarrow> exn + pyval" where
  "py_index v k =
     (case v of
        PDict kvs \<Rightarrow>
          (case map_of kvs k of None \<Rightarrow> Inl (KeyError (quoted k)) | Some x \<Rightarrow> Inr x)
      | PList xs \<Rightarrow> Inl (TypeError ''list indices must be integers or slices, not str'')
      | PStr s \<Rightarrow> Inl (TypeError ''string indices must be integers, not str'')
      | _ \<Rightarrow> Inl (TypeError (quoted (type_name v) @ '' object is not subscriptable'')))"

definition as_number :: "pyval \<Rightarrow> int option" where
  "as_number v =
     (case v of PInt i \<Rightarrow> Some i | PBool b \<Rightarrow> Some (if b then 1 else 0) | _ \<Rightarrow> None)"

definition py_add :: "pyval \<Rightarrow> pyval \<Rightarrow> exn + pyval" where
  "py_add a b =
     (case (as_number a, as_number b) of
        (Some i, Some j) \<Rightarrow> Inr (PInt (i + j))
      | _ \<Rightarrow>
          (case (a, b) of
             (PStr s, PStr t) \<Rightarrow> Inr (PStr (s @ t))
           | (PList xs, PList ys) \<Rightarrow> Inr (PList (xs @ ys))
           | _ \<Rightarrow> Inl (TypeError (''unsupported operand type(s) for +: ''
                                   @ quoted (type_name a) @ '' and ''
                                   @ quoted (type_name b)))))"

text \<open>
  The part of the \<^verbatim>\<open>try\<close> block after \<^verbatim>\<open>json.loads\<close>: the client is assigned field
  by field, and each later step can still raise.
\<close>

definition store_token :: "client2 \<Rightarrow> pyval \<Rightarrow> (exn + pyval) \<times> client2" where
  "store_token c auth_data =
     (case py_index auth_data ''tokenResponse'' of
        Inl e \<Rightarrow> (Inl e, c)
      | Inr tr \<Rightarrow>
          (case py_index tr ''accessToken'' of
             Inl e \<Rightarrow> (Inl e, c)
           | Inr tok \<Rightarrow>
               (let c1 = c\<lparr>access_token := tok\<rparr>
                in case py_get tr ''issuedAt'' (PInt 0) of
                     Inl e \<Rightarrow> (Inl e, c1)
                   | Inr issued \<Rightarrow>
                       (case py_get tr ''expiresIn'' (PInt 86400) of
                          Inl e \<Rightarrow> (Inl e, c1)
                        | Inr expires_in \<Rightarrow>
                            (case py_add issued expires_in of
                               Inl e \<Rightarrow> (Inl e, c1)
                             | Inr expires_at \<Rightarrow>
                                 (let c2 = c1\<lparr>token_expires_at := expires_at\<rparr>
                                  in case py_get auth_data ''member'' (PDict []) of
                                       Inl e \<Rightarrow> (Inl e, c2)
                                     | Inr member \<Rightarrow>
                                         (let c3 = c2\<lparr>user_data := member\<rparr>;
                                              c4 = c3\<lparr>auth_header := Some tok\<rparr>
                                          in case py_get member ''firstName'' PNone of
                                               Inl e \<Rightarrow> (Inl e, c4)
                                             | Inr first_name \<Rightarrow>
                                                 (Inr (PDict
                                                    [(''success'', PBool True),
                                                     (''message'',
                                                        PStr ''Successfully authenticated''),
                                                     (''token'', tok),
                                                     (''user'', member)]), c4))))))))"

definition extract_token :: "client2 \<Rightarrow> pyval \<Rightarrow> (exn + pyval) \<times> client2" where
  "extract_token c auth_data =
     (case py_contains ''tokenResponse'' auth_data of
        Inl e \<Rightarrow> (Inl e, c)
      | Inr False \<Rightarrow> (Inr (v2_message ''Token not found in auth data''), c)
      | Inr True \<Rightarrow>
          (case py_index auth_data ''tokenResponse'' of
             Inl e \<Rightarrow> (Inl e, c)
           | Inr tr \<Rightarrow>
               (case py_contains ''accessToken'' tr of
                  Inl e \<Rightarrow> (Inl e, c)
                | Inr False \<Rightarrow> (Inr (v2_message ''Token not found in auth data''), c)
                | Inr True \<Rightarrow> store_token c auth_data)))"

definition login_and_get_token_try ::
  "client2 \<Rightarrow> browser \<Rightarrow> string \<Rightarrow> string \<Rightarrow> (exn + pyval) \<times> client2" where
  "login_and_get_token_try c b username password =
     (case open_login b of
        Some e \<Rightarrow> (Inl e, c)
      | None \<Rightarrow>
          (case INSTITUTIONS (institution c) of
             None \<Rightarrow> (Inl (KeyError (quoted (institution c))), c)
           | Some cfg \<Rightarrow>
               if \<not> (css_found b \<or> xpath_found b) then
                 (Inr (v2_message (''Could not find '' @ name cfg @ '' button'')), c)
               else
                 (case enter_credentials b of
                    Some e \<Rightarrow> (Inl e, c)
                  | None \<Rightarrow>
                      (case local_storage b of
                         Inl e \<Rightarrow> (Inl e, c)
                       | Inr auth_data_str \<Rightarrow>
                           if \<not> truthy (opt_str auth_data_str) then
                             (Inr (v2_message ''No auth data found in localStorage''), c)
                           else
                             (case auth_data_str of
                                None \<Rightarrow>
                                  (Inr (v2_message ''No auth data found in localStorage''), c)
                              | Some s \<Rightarrow>
                                  (case json_loads b s of
                                     Inl e \<Rightarrow> (Inl e, c)
                                   | Inr auth_data \<Rightarrow> extract_token c auth_data))))))"

definition login_and_get_token ::
  "client2 \<Rightarrow> browser \<Rightarrow> string \<Rightarrow> string \<Rightarrow> (exn + pyval) \<times> client2" where
  "login_and_get_token c b username password =
     (case chrome_start b of
        Some e \<Rightarrow> (Inr (v2_message (''Login failed: '' @ str_exn e)), c)
      | None \<Rightarrow>
          (case login_and_get_token_try c b username password of
             (res, c') \<Rightarrow>
               (case quit b of
                  Some e \<Rightarrow> (Inl e, c')
                | None \<Rightarrow>
                    (case res of
                       Inl e \<Rightarrow> (Inr (v2_message (''Login failed: '' @ str_exn e)), c')
                     | Inr r \<Rightarrow> (Inr r, c')))))"

text \<open>What the exchange log of a call shows.\<close>

definition conflict_answered :: "exchange list \<Rightarrow> bool" where
  "conflict_answered log =
     (\<exists>x \<in> set log. case snd x of Inl e \<Rightarrow> False | Inr r \<Rightarrow> status_code r = 409)"

definition booking_requests :: "exchange list \<Rightarrow> nat" where
  "booking_requests log = length (filter (\<lambda>x. meth (fst x) = POST) log)"

section \<open>The consecutive-run finder\<close>

text \<open>
  The slot monitor (\<^verbatim>\<open>services/slot_monitor.py\<close>) is called by
  \<^verbatim>\<open>test_multibooking.py\<close>, but its source is missing from the repository's
  sources, so the finder is modelled from section 4.2 of the specification.
\<close>

text \<open>
  Modelled from the spec: the cache entry \<^verbatim>\<open>SlotAvailability\<close> of section 3, which
  \<^verbatim>\<open>slot_monitor.py\<close> reads from the database layer. Times are minutes after
  midnight; \<open>time_of_day\<close> is the start of the slot and \<open>end_of_slot\<close> its
  end, which section 4.2 compares with the start of the next slot.
\<close>

record slot_availability =
  time_of_day :: nat
  end_of_slot :: nat
  is_available :: bool
  total_capacity :: nat
  remaining_capacity :: nat

text \<open>
  Modelled from the spec: the availability test of the finder in \<^verbatim>\<open>slot_monitor.py\<close>,
  "every constituent slot is available (remaining\_capacity > 0)".
\<close>

definition available :: "slot_availability \<Rightarrow> bool" where
  "available s = (remaining_capacity s > 0)"

text \<open>
  Modelled from the spec: the adjacency test of the finder in \<^verbatim>\<open>slot_monitor.py\<close>,
  "end time of slot i = start time of slot i+1, no gaps".
\<close>

definition adjacent :: "slot_availability \<Rightarrow> slot_availability \<Rightarrow> bool" where
  "adjacent a b = (end_of_slot a = time_of_day b)"




text \<open>What the claims say of a window: all its slots are available and back-to-back.\<close>

fun back_to_back :: "slot_availability list \<Rightarrow> bool" where
  "back_to_back (a # b # r) = (adjacent a b \<and> back_to_back (b # r))"
| "back_to_back r = True"

definition valid_run :: "slot_availability list \<Rightarrow> bool" where
  "valid_run r = (list_all available r \<and> back_to_back r)"



section \<open>Sample data\<close>

text \<open>Concrete clients, responses and environments at which the properties are evaluated.\<close>

definition authenticated :: client where
  "authenticated =
     \<lparr>is_authenticated = True,
      current_account = PDict [(''username'', PStr ''member''), (''user_id'', PInt 7),
                               (''name'', PStr ''A Member'')]\<rparr>"

definition anonymous :: client where
  "anonymous = \<lparr>is_authenticated = False, current_account = PNone\<rparr>"

definition member :: client2 where
  "member =
     \<lparr>institution = ''tudelft'', access_token = PStr ''token'',
      token_expires_at = PInt 1800000000,
      user_data = PDict [(''id'', PInt 7), (''firstName'', PStr ''A''),
                         (''lastName'', PStr ''Member'')],
      auth_header = Some (PStr ''token'')\<rparr>"

definition fresh :: client2 where
  "fresh =
     \<lparr>institution = ''tudelft'', access_token = PNone, token_expires_at = PNone,
      user_data = PNone, auth_header = None\<rparr>"

definition answering :: "(exn + response) \<Rightarrow> env" where
  "answering out =
     \<lparr>send = (\<lambda>rq. out), now_timestamp = 1700000000,
      strptime = (\<lambda>s. if s = ''2025-11-17'' then Inr s
                        else Inl (ValueError ''time data does not match format'')),
      today = ''2025-11-10'', utcnow_iso = ''2025-11-10T09:00:00'',
      range_start_iso = ''2025-11-10T00:00:00+00:00'',
      range_end_iso = ''2025-12-08T23:59:59.999999+00:00''\<rparr>"

definition plain_response :: "int \<Rightarrow> pyval option \<Rightarrow> response" where
  "plain_response st body =
     \<lparr>status_code = st, content_type = Some ''application/json'', json_body = body,
      error_text = str_int st @ '' Error''\<rparr>"

definition storing :: "pyval \<Rightarrow> browser" where
  "storing auth_data =
     \<lparr>chrome_start = None, open_login = None, css_found = True, xpath_found = False,
      enter_credentials = None, local_storage = Inr (Some ''delcom_auth''),
      json_loads = (\<lambda>s. Inr auth_data), quit = None\<rparr>"

text \<open>A call returned a value (it did not propagate an exception).\<close>

definition returned :: "exn + pyval \<Rightarrow> bool" where
  "returned r = (case r of Inl e \<Rightarrow> False | Inr v \<Rightarrow> True)"

definition one_slot :: pyval where
  "one_slot =
     PDict [(''id'', PInt 41), (''startTime'', PStr ''13:00''), (''endTime'', PStr ''14:00''),
            (''availableSpots'', PInt 3), (''totalSpots'', PInt 20)]"

definition slots_body :: pyval where
  "slots_body = PDict [(''slots'', PList [one_slot])]"

section \<open>Verified properties\<close>

subsection \<open>Conflict on booking\<close>

lemma v1_conflict_result:
  assumes "create_booking c w location date time_slot sub_location slot_id resource_id
             = (res, log)"
      and "conflict_answered log"
  shows "res = Inr (v1_error (PStr ''Slot already booked or no longer available''))
         \<and> length log = 1 \<and> booking_requests log = 1"
  using assms
  by (auto simp: create_booking_def create_booking_try_def create_booking_response_def
        conflict_answered_def booking_requests_def v1_request_def Let_def
      split: if_splits option.splits sum.splits prod.splits)

lemma v2_conflict_result:
  assumes "create_booking2 c w slot_id product_id resource_id start_time end_time lp
             = (res, log)"
      and "conflict_answered log"
  shows "res = Inr (v2_message ''Slot already booked'')
         \<and> length log = 1 \<and> booking_requests log = 1"
  using assms
  by (auto simp: create_booking2_def create_booking2_try_def create_booking2_except_def
        raise_for_status_def conflict_answered_def booking_requests_def v2_request_def Let_def
      split: if_splits option.splits sum.splits prod.splits bool.splits)

text \<open>
  Claim C1. Whenever the vendor answers a \<^verbatim>\<open>create_booking\<close> call with status 409,
  the client (v1 and v2 alike) returns a failure carrying its slot-already-booked message,
  the result holds no booking reference, and the call has made exactly one exchange with
  the vendor, the booking request: nothing is sent again after the 409.
\<close>

theorem create_booking_conflict_final:
  "(conflict_answered
      (snd (create_booking c w location date time_slot sub_location slot_id resource_id)) \<longrightarrow>
      fst (create_booking c w location date time_slot sub_location slot_id resource_id)
        = Inr (v1_error (PStr ''Slot already booked or no longer available''))
      \<and> is_failure
          (fst (create_booking c w location date time_slot sub_location slot_id resource_id))
      \<and> result_get
          (fst (create_booking c w location date time_slot sub_location slot_id resource_id))
          ''booking'' = None
      \<and> length
          (snd (create_booking c w location date time_slot sub_location slot_id resource_id))
          = 1
      \<and> booking_requests
          (snd (create_booking c w location date time_slot sub_location slot_id resource_id))
          = 1)
   \<and> (conflict_answered
        (snd (create_booking2 c2 w slot product resource start_time end_time linked)) \<longrightarrow>
        fst (create_booking2 c2 w slot product resource start_time end_time linked)
          = Inr (v2_message ''Slot already booked'')
        \<and> is_failure (fst (create_booking2 c2 w slot product resource start_time end_time linked))
        \<and> result_get (fst (create_booking2 c2 w slot product resource start_time end_time linked))
            ''booking_id'' = None
        \<and> result_get (fst (create_booking2 c2 w slot product resource start_time end_time linked))
            ''data'' = None
        \<and> length (snd (create_booking2 c2 w slot product resource start_time end_time linked))
            = 1
        \<and> booking_requests
            (snd (create_booking2 c2 w slot product resource start_time end_time linked)) = 1)"
proof (intro conjI impI)
  let ?r = "create_booking c w location date time_slot sub_location slot_id resource_id"
  assume h: "conflict_answered (snd ?r)"
  have e: "?r = (fst ?r, snd ?r)" by simp
  from v1_conflict_result [OF e h]
  show "fst ?r = Inr (v1_error (PStr ''Slot already booked or no longer available''))"
    and "length (snd ?r) = 1" and "booking_requests (snd ?r) = 1"
    by simp_all
  then show "is_failure (fst ?r)" and "result_get (fst ?r) ''booking'' = None"
    by (simp_all add: is_failure_def result_get_def v1_error_def)
next
  let ?r = "create_booking2 c2 w slot product resource start_time end_time linked"
  assume h: "conflict_answered (snd ?r)"
  have e: "?r = (fst ?r, snd ?r)" by simp
  from v2_conflict_result [OF e h]
  show "fst ?r = Inr (v2_message ''Slot already booked'')"
    and "length (snd ?r) = 1" and "booking_requests (snd ?r) = 1"
    by simp_all
  then show "is_failure (fst ?r)" and "result_get (fst ?r) ''booking_id'' = None"
    and "result_get (fst ?r) ''data'' = None"
    by (simp_all add: is_failure_def result_get_def v2_message_def)
qed

theorem create_booking_conflict_final_witness:
  "conflict_answered
     (snd (create_booking authenticated (answering (Inr (plain_response 409 None)))
             ''X1'' ''2025-11-17'' ''13:00'' (Some ''A'') None None))
   \<and> fst (create_booking authenticated (answering (Inr (plain_response 409 None)))
             ''X1'' ''2025-11-17'' ''13:00'' (Some ''A'') None None)
       = Inr (v1_error (PStr ''Slot already booked or no longer available''))
   \<and> length (snd (create_booking authenticated (answering (Inr (plain_response 409 None)))
             ''X1'' ''2025-11-17'' ''13:00'' (Some ''A'') None None)) = 1
   \<and> conflict_answered
       (snd (create_booking2 member (answering (Inr (plain_response 409 None)))
               41 20045 None None None None))
   \<and> fst (create_booking2 member (answering (Inr (plain_response 409 None)))
               41 20045 None None None None)
       = Inr (v2_message ''Slot already booked'')
   \<and> length (snd (create_booking2 member (answering (Inr (plain_response 409 None)))
               41 20045 None None None None)) = 1"
proof -
  have h1: "conflict_answered
     (snd (create_booking authenticated (answering (Inr (plain_response 409 None)))
             ''X1'' ''2025-11-17'' ''13:00'' (Some ''A'') None None))"
    by (simp add: create_booking_def create_booking_try_def create_booking_response_def
          conflict_answered_def authenticated_def answering_def plain_response_def
          location_map_def Let_def)
  have h2: "conflict_answered
       (snd (create_booking2 member (answering (Inr (plain_response 409 None)))
               41 20045 None None None None))"
    by (simp add: create_booking2_def create_booking2_try_def is_logged_in_def time_ge_def
          py_get_def dict_get_def raise_for_status_def
          conflict_answered_def member_def answering_def plain_response_def Let_def)
  from h1 h2
    create_booking_conflict_final
      [of authenticated "answering (Inr (plain_response 409 None))"
          "''X1''" "''2025-11-17''" "''13:00''" "Some ''A''" None None
          member 41 20045 None None None None]
  show ?thesis by simp
qed

subsection \<open>Calls made while not logged in\<close>

text \<open>
  Claim C8. A call of \<^verbatim>\<open>get_available_slots\<close>, \<^verbatim>\<open>get_current_bookings\<close>,
  \<^verbatim>\<open>create_booking\<close> or \<^verbatim>\<open>cancel_booking\<close> on a client that is not logged in (v1:
  \<^verbatim>\<open>is_authenticated\<close> is false; v2: \<^verbatim>\<open>is_logged_in()\<close> returns false) returns a
  failure with an error message and makes no exchange with the vendor.
\<close>

theorem not_logged_in_sends_nothing:
  "(\<not> is_authenticated c \<longrightarrow>
      get_available_slots c w location date sub_location = (Inr not_authenticated, [])
      \<and> get_current_bookings c w include_past = (Inr not_authenticated, [])
      \<and> create_booking c w location date time_slot sub_location slot_id resource_id
          = (Inr not_authenticated, [])
      \<and> cancel_booking c w booking_id = (Inr not_authenticated, []))
   \<and> (is_logged_in c2 w = Inr False \<longrightarrow>
      get_available_slots2 c2 w location date sub_location = (Inr not_logged_in, [])
      \<and> get_current_bookings2 c2 w include_past = (Inr not_logged_in, [])
      \<and> create_booking2 c2 w slot product resource start_time end_time linked
          = (Inr not_logged_in, [])
      \<and> cancel_booking2 c2 w booking = (Inr not_logged_in, []))
   \<and> is_failure (Inr not_authenticated)
   \<and> result_get (Inr not_authenticated) ''error''
       = Some (PStr ''Not authenticated. Please login first.'')
   \<and> is_failure (Inr not_logged_in)
   \<and> result_get (Inr not_logged_in) ''message'' = Some (PStr ''Not logged in'')"
  by (simp add: get_available_slots_def get_current_bookings_def create_booking_def
        cancel_booking_def get_available_slots2_def get_current_bookings2_def
        create_booking2_def cancel_booking2_def is_failure_def result_get_def
        not_authenticated_def not_logged_in_def v2_message_def)

theorem not_logged_in_sends_nothing_witness:
  "\<not> is_authenticated anonymous
   \<and> is_logged_in fresh (answering (Inr (plain_response 200 None))) = Inr False
   \<and> get_available_slots anonymous (answering (Inr (plain_response 200 None)))
        ''X1'' ''2025-11-17'' (Some ''A'') = (Inr not_authenticated, [])
   \<and> cancel_booking anonymous (answering (Inr (plain_response 200 None))) ''77''
        = (Inr not_authenticated, [])
   \<and> get_available_slots2 fresh (answering (Inr (plain_response 200 None)))
        ''X1'' ''2025-11-17'' (Some ''A'') = (Inr not_logged_in, [])
   \<and> cancel_booking2 fresh (answering (Inr (plain_response 200 None))) 77
        = (Inr not_logged_in, [])"
proof -
  have h1: "\<not> is_authenticated anonymous"
    by (simp add: anonymous_def)
  have h2: "is_logged_in fresh (answering (Inr (plain_response 200 None))) = Inr False"
    by (simp add: is_logged_in_def fresh_def)
  from h1 h2
    not_logged_in_sends_nothing
      [of anonymous "answering (Inr (plain_response 200 None))" "''X1''" "''2025-11-17''"
          "Some ''A''" False "''13:00''" None None "''77''" fresh 41 20045 None None None
          None 77]
  show ?thesis by simp
qed

subsection \<open>The login check of v2\<close>

text \<open>
  What \<^verbatim>\<open>is_logged_in\<close> computes: it returns true exactly when the token is truthy
  and the expiry is either falsy or a number greater than the clock reading.
\<close>

lemma is_logged_in_true_iff:
  "is_logged_in c w = Inr True \<longleftrightarrow>
     truthy (access_token c)
     \<and> (\<not> truthy (token_expires_at c)
        \<or> (\<exists>i. as_number (token_expires_at c) = Some i \<and> now_timestamp w < i))"
  by (cases "token_expires_at c")
     (auto simp: is_logged_in_def time_ge_def as_number_def split: if_splits)

text \<open>
  At or after any recorded expiry other than 0 the login check fails and the four data
  operations return the not-logged-in failure without an exchange.
\<close>

lemma expired_token_sends_nothing:
  assumes "token_expires_at c = PInt e" and "e \<noteq> 0" and "e \<le> now_timestamp w"
  shows "is_logged_in c w = Inr False"
    and "get_available_slots2 c w location date sub_location = (Inr not_logged_in, [])"
    and "get_current_bookings2 c w include_past = (Inr not_logged_in, [])"
    and "create_booking2 c w slot product resource start end linked
           = (Inr not_logged_in, [])"
    and "cancel_booking2 c w booking = (Inr not_logged_in, [])"
proof -
  show l: "is_logged_in c w = Inr False"
    using assms by (simp add: is_logged_in_def time_ge_def)
  show "get_available_slots2 c w location date sub_location = (Inr not_logged_in, [])"
    by (simp add: get_available_slots2_def l)
  show "get_current_bookings2 c w include_past = (Inr not_logged_in, [])"
    by (simp add: get_current_bookings2_def l)
  show "create_booking2 c w slot product resource start end linked
           = (Inr not_logged_in, [])"
    by (simp add: create_booking2_def l)
  show "cancel_booking2 c w booking = (Inr not_logged_in, [])"
    by (simp add: cancel_booking2_def l)
qed

text \<open>
  Claim C10 at a recorded expiry of 0. A login whose token data carries
  \<^verbatim>\<open>expiresIn = 0\<close> and no \<^verbatim>\<open>issuedAt\<close> succeeds and records the expiry
  \<^verbatim>\<open>0 + 0 = 0\<close>. The clock reading 1700000000 is after that expiry, and yet
  \<^verbatim>\<open>is_logged_in\<close> returns true and \<^verbatim>\<open>cancel_booking\<close> contacts the vendor: the
  test \<^verbatim>\<open>if self.token_expires_at:\<close> takes the number 0 for a missing expiry.
\<close>

theorem zero_expiry_stays_logged_in:
  "is_success (fst (login_and_get_token fresh
       (storing (PDict [(''tokenResponse'',
                          PDict [(''accessToken'', PStr ''token''), (''expiresIn'', PInt 0)]),
                        (''member'', PDict [(''id'', PInt 7)])]))
       ''netid'' ''secret''))
   \<and> token_expires_at (snd (login_and_get_token fresh
       (storing (PDict [(''tokenResponse'',
                          PDict [(''accessToken'', PStr ''token''), (''expiresIn'', PInt 0)]),
                        (''member'', PDict [(''id'', PInt 7)])]))
       ''netid'' ''secret'')) = PInt 0
   \<and> now_timestamp (answering (Inr (plain_response 200 None))) \<ge> 0
   \<and> is_logged_in (snd (login_and_get_token fresh
       (storing (PDict [(''tokenResponse'',
                          PDict [(''accessToken'', PStr ''token''), (''expiresIn'', PInt 0)]),
                        (''member'', PDict [(''id'', PInt 7)])]))
       ''netid'' ''secret'')) (answering (Inr (plain_response 200 None))) = Inr True
   \<and> length (snd (cancel_booking2 (snd (login_and_get_token fresh
       (storing (PDict [(''tokenResponse'',
                          PDict [(''accessToken'', PStr ''token''), (''expiresIn'', PInt 0)]),
                        (''member'', PDict [(''id'', PInt 7)])]))
       ''netid'' ''secret'')) (answering (Inr (plain_response 200 None))) 77)) = 1"
  by (simp add: login_and_get_token_def login_and_get_token_try_def extract_token_def
        store_token_def storing_def fresh_def INSTITUTIONS_def opt_str_def
        py_contains_def py_index_def py_get_def dict_get_def py_add_def as_number_def
        is_success_def result_get_def is_logged_in_def answering_def
        cancel_booking2_def cancel2_try_def raise_for_status_def plain_response_def Let_def)

subsection \<open>Login that fails half-way\<close>

text \<open>
  Claim C9 at two failing logins. v1: the vendor answers the login request with status
  200 and the JSON body \<^verbatim>\<open>[]\<close>; \<^verbatim>\<open>is_authenticated\<close> is set before
  \<^verbatim>\<open>data.get\<close> raises, so \<^verbatim>\<open>login\<close> returns a failure and leaves the client
  authenticated. v2: the stored token data has a text \<^verbatim>\<open>issuedAt\<close>; the token is
  stored before the sum with \<^verbatim>\<open>expiresIn\<close> raises, so \<^verbatim>\<open>login_and_get_token\<close>
  returns a failure and leaves the client with a token (and logged in).
\<close>

theorem failed_login_changes_state:
  "is_failure (fst (login anonymous (answering (Inr (plain_response 200 (Some (PList [])))))
                 ''member'' ''secret''))
   \<and> \<not> is_authenticated anonymous
   \<and> is_authenticated
       (fst (snd (login anonymous (answering (Inr (plain_response 200 (Some (PList [])))))
                    ''member'' ''secret'')))
   \<and> is_failure (fst (login_and_get_token fresh
       (storing (PDict [(''tokenResponse'',
                          PDict [(''accessToken'', PStr ''token''),
                                 (''issuedAt'', PStr ''2025-11-10T09:00:00Z''),
                                 (''expiresIn'', PInt 86400)])]))
       ''netid'' ''secret''))
   \<and> access_token fresh = PNone
   \<and> access_token (snd (login_and_get_token fresh
       (storing (PDict [(''tokenResponse'',
                          PDict [(''accessToken'', PStr ''token''),
                                 (''issuedAt'', PStr ''2025-11-10T09:00:00Z''),
                                 (''expiresIn'', PInt 86400)])]))
       ''netid'' ''secret'')) = PStr ''token''
   \<and> is_logged_in (snd (login_and_get_token fresh
       (storing (PDict [(''tokenResponse'',
                          PDict [(''accessToken'', PStr ''token''),
                                 (''issuedAt'', PStr ''2025-11-10T09:00:00Z''),
                                 (''expiresIn'', PInt 86400)])]))
       ''netid'' ''secret'')) (answering (Inr (plain_response 200 None))) = Inr True"
  by (simp add: login_def login_try_def login_response_def json_def v1_request_def
        anonymous_def answering_def plain_response_def is_failure_def result_get_def
        v1_error_def v2_message_def
        login_and_get_token_def login_and_get_token_try_def extract_token_def
        store_token_def storing_def fresh_def INSTITUTIONS_def opt_str_def
        py_contains_def py_index_def py_get_def dict_get_def py_add_def as_number_def
        is_logged_in_def Let_def)

subsection \<open>Cancelling a booking\<close>

lemma str_int_404: "str_int 404 = ''404''"
  by (simp add: str_int_def str_nat.simps)

lemma cancel_booking_answered:
  "is_authenticated c \<and> send w (cancel_request b) = Inr r \<longrightarrow>
      (is_success (fst (cancel_booking c w b)) \<longleftrightarrow> status_code r = 200)
      \<and> (status_code r = 404 \<longrightarrow>
            fst (cancel_booking c w b) = Inr (v1_error (PStr ''Booking not found'')))"
  by (auto simp: cancel_booking_def cancel_booking_try_def cancel_response_def Let_def
        is_success_def result_get_def v1_error_def split: sum.splits)

lemma cancel_booking_raised:
  "is_authenticated c \<and> send w (cancel_request b) = Inl e \<longrightarrow>
      fst (cancel_booking c w b)
        = Inr (v1_error (PStr (''Error cancelling booking: '' @ str_exn e)))
      \<and> fst (cancel_booking c w b) \<noteq> Inr (v1_error (PStr ''Booking not found''))"
  by (auto simp: cancel_booking_def cancel_booking_try_def Let_def v1_error_def)

lemma cancel_booking2_answered:
  "is_logged_in c2 w = Inr True \<and> send w (cancel2_request c2 k) = Inr r \<longrightarrow>
      (is_success (fst (cancel_booking2 c2 w k))
         \<longleftrightarrow> \<not> (400 \<le> status_code r \<and> status_code r < 600))
      \<and> (status_code r = 404 \<longrightarrow>
            is_failure (fst (cancel_booking2 c2 w k))
            \<and> result_get (fst (cancel_booking2 c2 w k)) ''message''
                = Some (PStr ''API error: 404''))"
  by (auto simp: cancel_booking2_def cancel2_try_def raise_for_status_def Let_def
        v2_except_def api_error_def str_int_404
        is_success_def is_failure_def result_get_def split: sum.splits)

lemma cancel_booking2_raised:
  "is_logged_in c2 w = Inr True \<and> send w (cancel2_request c2 k) = Inl e
     \<and> (case e of HTTPError r \<Rightarrow> False | _ \<Rightarrow> True) \<longrightarrow>
      fst (cancel_booking2 c2 w k) = Inr (request_failed e)
      \<and> result_get (fst (cancel_booking2 c2 w k)) ''message''
          = Some (PStr (''Request failed: '' @ str_exn e))
      \<and> result_get (fst (cancel_booking2 c2 w k)) ''message''
          \<noteq> Some (PStr ''API error: 404'')"
  by (cases e)
     (auto simp: cancel_booking2_def Let_def v2_except_def request_failed_def
        v2_message_def result_get_def)

text \<open>
  Claim C4 as stated fails for v2: the vendor answers the cancellation with status 204,
  which is not 200, and \<^verbatim>\<open>cancel_booking\<close> of v2 returns success
  (\<^verbatim>\<open>raise_for_status\<close> rejects the statuses 400 to 599 only).
\<close>

theorem cancel_booking2_success_on_204:
  "is_logged_in member (answering (Inr (plain_response 204 None))) = Inr True
   \<and> snd (cancel_booking2 member (answering (Inr (plain_response 204 None))) 77)
       = [(cancel2_request member 77, Inr (plain_response 204 None))]
   \<and> status_code (plain_response 204 None) \<noteq> 200
   \<and> is_success (fst (cancel_booking2 member (answering (Inr (plain_response 204 None))) 77))"
  by (simp add: cancel_booking2_def cancel2_try_def raise_for_status_def Let_def
        is_logged_in_def time_ge_def member_def answering_def plain_response_def
        is_success_def result_get_def)

text \<open>
  Claim C4, amended. For a call of \<^verbatim>\<open>cancel_booking\<close> on a logged-in client that the
  vendor answers: v1 returns success exactly when the status is 200, and on 404 the
  failure \<^verbatim>\<open>Booking not found\<close>; v2 returns success exactly when the status is
  outside 400 to 599, and on 404 a failure whose message is \<^verbatim>\<open>API error: 404\<close>.
  When the request raises instead (for v2: anything but an \<^verbatim>\<open>HTTPError\<close>), the
  failure carries the transport message (\<^verbatim>\<open>Error cancelling booking: ...\<close>,
  \<^verbatim>\<open>Request failed: ...\<close>), which differs from the message for 404.
\<close>

theorem cancel_booking_outcomes:
  "(is_authenticated c \<and> send w (cancel_request b) = Inr r \<longrightarrow>
      (is_success (fst (cancel_booking c w b)) \<longleftrightarrow> status_code r = 200)
      \<and> (status_code r = 404 \<longrightarrow>
            fst (cancel_booking c w b) = Inr (v1_error (PStr ''Booking not found''))))
   \<and> (is_authenticated c' \<and> send w' (cancel_request b') = Inl e \<longrightarrow>
      fst (cancel_booking c' w' b')
        = Inr (v1_error (PStr (''Error cancelling booking: '' @ str_exn e)))
      \<and> fst (cancel_booking c' w' b') \<noteq> Inr (v1_error (PStr ''Booking not found'')))
   \<and> (is_logged_in c2 w2 = Inr True \<and> send w2 (cancel2_request c2 k) = Inr r2 \<longrightarrow>
      (is_success (fst (cancel_booking2 c2 w2 k))
         \<longleftrightarrow> \<not> (400 \<le> status_code r2 \<and> status_code r2 < 600))
      \<and> (status_code r2 = 404 \<longrightarrow>
            is_failure (fst (cancel_booking2 c2 w2 k))
            \<and> result_get (fst (cancel_booking2 c2 w2 k)) ''message''
                = Some (PStr ''API error: 404'')))
   \<and> (is_logged_in c2' w2' = Inr True \<and> send w2' (cancel2_request c2' k') = Inl e2
       \<and> (case e2 of HTTPError r \<Rightarrow> False | _ \<Rightarrow> True) \<longrightarrow>
      fst (cancel_booking2 c2' w2' k') = Inr (request_failed e2)
      \<and> result_get (fst (cancel_booking2 c2' w2' k')) ''message''
          = Some (PStr (''Request failed: '' @ str_exn e2))
      \<and> result_get (fst (cancel_booking2 c2' w2' k')) ''message''
          \<noteq> Some (PStr ''API error: 404''))"
  using cancel_booking_answered [of c w b r] cancel_booking_raised [of c' w' b' e]
    cancel_booking2_answered [of c2 w2 k r2] cancel_booking2_raised [of c2' w2' k' e2]
  by blast

theorem cancel_booking_outcomes_witness:
  "is_authenticated authenticated
   \<and> send (answering (Inr (plain_response 404 None))) (cancel_request ''77'')
       = Inr (plain_response 404 None)
   \<and> status_code (plain_response 404 None) = 404
   \<and> fst (cancel_booking authenticated (answering (Inr (plain_response 404 None))) ''77'')
       = Inr (v1_error (PStr ''Booking not found''))
   \<and> send (answering (Inl (LibraryError ''timed out''))) (cancel_request ''77'')
       = Inl (LibraryError ''timed out'')
   \<and> fst (cancel_booking authenticated (answering (Inl (LibraryError ''timed out''))) ''77'')
       = Inr (v1_error (PStr (''Error cancelling booking: ''
                              @ str_exn (LibraryError ''timed out''))))
   \<and> is_logged_in member (answering (Inr (plain_response 404 None))) = Inr True
   \<and> send (answering (Inr (plain_response 404 None))) (cancel2_request member 77)
       = Inr (plain_response 404 None)
   \<and> is_failure
       (fst (cancel_booking2 member (answering (Inr (plain_response 404 None))) 77))
   \<and> result_get
       (fst (cancel_booking2 member (answering (Inr (plain_response 404 None))) 77))
       ''message'' = Some (PStr ''API error: 404'')
   \<and> is_logged_in member (answering (Inl (LibraryError ''timed out''))) = Inr True
   \<and> send (answering (Inl (LibraryError ''timed out''))) (cancel2_request member 77)
       = Inl (LibraryError ''timed out'')
   \<and> fst (cancel_booking2 member (answering (Inl (LibraryError ''timed out''))) 77)
       = Inr (request_failed (LibraryError ''timed out''))"
proof -
  have h1: "is_authenticated authenticated"
    by (simp add: authenticated_def)
  have h2: "send (answering out) rq = out" for out rq
    by (simp add: answering_def)
  have h3: "status_code (plain_response 404 None) = 404"
    by (simp add: plain_response_def)
  have h4: "is_logged_in member (answering out) = Inr True" for out
    by (simp add: is_logged_in_def time_ge_def member_def answering_def)
  have h5: "(case LibraryError ''timed out'' of HTTPError r \<Rightarrow> False | _ \<Rightarrow> True)"
    by simp
  from h1 h2 h3 h4 h5
    cancel_booking_outcomes
      [of authenticated "answering (Inr (plain_response 404 None))" "''77''"
          "plain_response 404 None"
          authenticated "answering (Inl (LibraryError ''timed out''))" "''77''"
          "LibraryError ''timed out''"
          member "answering (Inr (plain_response 404 None))" 77 "plain_response 404 None"
          member "answering (Inl (LibraryError ''timed out''))" 77
          "LibraryError ''timed out''"]
  show ?thesis by simp
qed

subsection \<open>Fetching the available slots\<close>

lemma slots_returned:
  "returned (fst (get_available_slots c w l d s))
   \<and> (is_success (fst (get_available_slots c w l d s))
      \<or> (is_failure (fst (get_available_slots c w l d s))
         \<and> (\<exists>m. result_get (fst (get_available_slots c w l d s)) ''error''
                   = Some (PStr m))))"
  by (auto simp: get_available_slots_def get_available_slots_try_def slots_response_def
        Let_def returned_def is_success_def is_failure_def result_get_def v1_error_def
        not_authenticated_def
      split: sum.splits option.splits prod.splits)

lemma slots_success_only_200:
  "is_success (fst (get_available_slots c w l d s)) \<longrightarrow>
     (\<exists>rq r. snd (get_available_slots c w l d s) = [(rq, Inr r)]
        \<and> status_code r = 200 \<and> json_body r \<noteq> None)"
  by (auto simp: get_available_slots_def get_available_slots_try_def slots_response_def
        Let_def is_success_def result_get_def v1_error_def json_def
        not_authenticated_def
      split: sum.splits option.splits prod.splits if_splits)

lemma slots_failed_fetch:
  "snd (get_available_slots c w l d s) = [(rq, out)]
     \<and> (case out of Inl e \<Rightarrow> True | Inr r \<Rightarrow> status_code r \<noteq> 200) \<longrightarrow>
     is_failure (fst (get_available_slots c w l d s))"
  by (auto simp: get_available_slots_def get_available_slots_try_def slots_response_def
        Let_def is_failure_def result_get_def v1_error_def json_def
        not_authenticated_def
      split: sum.splits option.splits prod.splits if_splits)

lemma slots2_returned:
  "is_logged_in c w = Inr b \<and> strptime w d = Inr day \<longrightarrow>
   returned (fst (get_available_slots2 c w l d s))
   \<and> (is_success (fst (get_available_slots2 c w l d s))
      \<or> (is_failure (fst (get_available_slots2 c w l d s))
         \<and> (\<exists>m. result_get (fst (get_available_slots2 c w l d s)) ''message''
                   = Some (PStr m))))"
  by (auto simp: get_available_slots2_def slots2_try_def v2_except_def api_error_def
        request_failed_def not_logged_in_def v2_message_def
        Let_def returned_def is_success_def is_failure_def result_get_def
      split: sum.splits option.splits prod.splits bool.splits exn.splits)

lemma slots2_success_only_answered:
  "is_success (fst (get_available_slots2 c w l d s)) \<longrightarrow>
     (\<exists>rq r. snd (get_available_slots2 c w l d s) = [(rq, Inr r)]
        \<and> \<not> (400 \<le> status_code r \<and> status_code r < 600) \<and> json_body r \<noteq> None)"
  by (auto simp: get_available_slots2_def slots2_try_def v2_except_def api_error_def
        request_failed_def not_logged_in_def v2_message_def raise_for_status_def json_def
        Let_def is_success_def result_get_def
      split: sum.splits option.splits prod.splits bool.splits exn.splits if_splits)

lemma slots2_failed_fetch:
  "snd (get_available_slots2 c w l d s) = [(rq, out)]
     \<and> (case out of Inl e \<Rightarrow> True
         | Inr r \<Rightarrow> 400 \<le> status_code r \<and> status_code r < 600) \<longrightarrow>
     is_failure (fst (get_available_slots2 c w l d s))"
  by (auto simp: get_available_slots2_def slots2_try_def v2_except_def api_error_def
        request_failed_def not_logged_in_def v2_message_def raise_for_status_def json_def
        Let_def is_failure_def result_get_def
      split: sum.splits option.splits prod.splits bool.splits exn.splits if_splits)

text \<open>
  Claim C5 as stated fails for v2: the vendor answers the fetch with status 201, which is
  not 200, and a JSON list; \<^verbatim>\<open>get_available_slots\<close> of v2 returns success with that
  list (\<^verbatim>\<open>raise_for_status\<close> rejects the statuses 400 to 599 only).
\<close>

theorem slots2_success_on_201:
  "is_logged_in member (answering (Inr (plain_response 201 (Some (PList [one_slot])))))
     = Inr True
   \<and> snd (get_available_slots2 member
            (answering (Inr (plain_response 201 (Some (PList [one_slot])))))
            ''Fitness'' ''2025-11-17'' None)
       = [(slots2_request member
             (answering (Inr (plain_response 201 (Some (PList [one_slot])))))
             20061 None ''2025-11-17'' None,
           Inr (plain_response 201 (Some (PList [one_slot]))))]
   \<and> status_code (plain_response 201 (Some (PList [one_slot]))) \<noteq> 200
   \<and> is_success (fst (get_available_slots2 member
            (answering (Inr (plain_response 201 (Some (PList [one_slot])))))
            ''Fitness'' ''2025-11-17'' None))
   \<and> result_get (fst (get_available_slots2 member
            (answering (Inr (plain_response 201 (Some (PList [one_slot])))))
            ''Fitness'' ''2025-11-17'' None)) ''slots'' = Some (PList [one_slot])"
  by (simp add: get_available_slots2_def slots2_try_def raise_for_status_def json_def
        LOCATIONS_def is_logged_in_def time_ge_def member_def answering_def
        plain_response_def is_success_def result_get_def Let_def)

text \<open>
  Claim C5, amended. \<^verbatim>\<open>get_available_slots\<close> of v1 always returns a value, which is a
  success or a failure with an \<^verbatim>\<open>error\<close> text; it returns success only after the
  vendor answered with status 200 and a body that decodes; and it returns a failure
  whenever the request raised or the vendor answered with another status. For v2, when
  the login check returns and the date parses, the call returns a value, which is a
  success or a failure with a \<^verbatim>\<open>message\<close> text; it returns success only after the
  vendor answered with a status outside 400 to 599 and a body that decodes; and it returns
  a failure whenever the request raised or the vendor answered with a status from 400 to
  599.
\<close>

theorem get_available_slots_failures:
  "(returned (fst (get_available_slots c w l d s))
    \<and> (is_success (fst (get_available_slots c w l d s))
       \<or> (is_failure (fst (get_available_slots c w l d s))
          \<and> (\<exists>m. result_get (fst (get_available_slots c w l d s)) ''error''
                    = Some (PStr m)))))
   \<and> (is_success (fst (get_available_slots ca wa la da sa)) \<longrightarrow>
        (\<exists>rq r. snd (get_available_slots ca wa la da sa) = [(rq, Inr r)]
           \<and> status_code r = 200 \<and> json_body r \<noteq> None))
   \<and> (snd (get_available_slots cb wb lb db sb) = [(rqb, outb)]
        \<and> (case outb of Inl e \<Rightarrow> True | Inr r \<Rightarrow> status_code r \<noteq> 200) \<longrightarrow>
        is_failure (fst (get_available_slots cb wb lb db sb)))
   \<and> (is_logged_in c2 w2 = Inr b2 \<and> strptime w2 d2 = Inr day2 \<longrightarrow>
        returned (fst (get_available_slots2 c2 w2 l2 d2 s2))
        \<and> (is_success (fst (get_available_slots2 c2 w2 l2 d2 s2))
           \<or> (is_failure (fst (get_available_slots2 c2 w2 l2 d2 s2))
              \<and> (\<exists>m. result_get (fst (get_available_slots2 c2 w2 l2 d2 s2)) ''message''
                        = Some (PStr m)))))
   \<and> (is_success (fst (get_available_slots2 c3 w3 l3 d3 s3)) \<longrightarrow>
        (\<exists>rq r. snd (get_available_slots2 c3 w3 l3 d3 s3) = [(rq, Inr r)]
           \<and> \<not> (400 \<le> status_code r \<and> status_code r < 600) \<and> json_body r \<noteq> None))
   \<and> (snd (get_available_slots2 c4 w4 l4 d4 s4) = [(rq4, out4)]
        \<and> (case out4 of Inl e \<Rightarrow> True
            | Inr r \<Rightarrow> 400 \<le> status_code r \<and> status_code r < 600) \<longrightarrow>
        is_failure (fst (get_available_slots2 c4 w4 l4 d4 s4)))"
  using slots_returned [of c w l d s] slots_success_only_200 [of ca wa la da sa]
    slots_failed_fetch [of cb wb lb db sb rqb outb]
    slots2_returned [of c2 w2 b2 d2 day2 l2 s2]
    slots2_success_only_answered [of c3 w3 l3 d3 s3]
    slots2_failed_fetch [of c4 w4 l4 d4 s4 rq4 out4]
  by blast

lemma send_answering: "send (answering out) rq = out"
  by (simp add: answering_def)

lemma strptime_answering: "strptime (answering out) ''2025-11-17'' = Inr ''2025-11-17''"
  by (simp add: answering_def)

lemma member_logged_in: "is_logged_in member (answering out) = Inr True"
  by (simp add: is_logged_in_def time_ge_def member_def answering_def)

theorem get_available_slots_failures_witness:
  "is_success (fst (get_available_slots authenticated
       (answering (Inr (plain_response 200 (Some slots_body)))) ''Fitness'' ''2025-11-17'' None))
   \<and> (\<exists>rq r. snd (get_available_slots authenticated
          (answering (Inr (plain_response 200 (Some slots_body))))
          ''Fitness'' ''2025-11-17'' None) = [(rq, Inr r)]
        \<and> status_code r = 200 \<and> json_body r \<noteq> None)
   \<and> snd (get_available_slots authenticated (answering (Inr (plain_response 500 None)))
            ''Fitness'' ''2025-11-17'' None)
       = [(slots_request ''20061'' ''Fitness'' ''2025-11-17'' None,
           Inr (plain_response 500 None))]
   \<and> status_code (plain_response 500 None) \<noteq> 200
   \<and> is_failure (fst (get_available_slots authenticated
         (answering (Inr (plain_response 500 None))) ''Fitness'' ''2025-11-17'' None))
   \<and> is_logged_in member (answering (Inr (plain_response 500 None))) = Inr True
   \<and> strptime (answering (Inr (plain_response 500 None))) ''2025-11-17''
       = Inr ''2025-11-17''
   \<and> returned (fst (get_available_slots2 member
         (answering (Inr (plain_response 500 None))) ''Fitness'' ''2025-11-17'' None))
   \<and> is_success (fst (get_available_slots2 member
         (answering (Inr (plain_response 200 (Some (PList [one_slot])))))
         ''Fitness'' ''2025-11-17'' None))
   \<and> (\<exists>rq r. snd (get_available_slots2 member
          (answering (Inr (plain_response 200 (Some (PList [one_slot])))))
          ''Fitness'' ''2025-11-17'' None) = [(rq, Inr r)]
        \<and> \<not> (400 \<le> status_code r \<and> status_code r < 600) \<and> json_body r \<noteq> None)
   \<and> snd (get_available_slots2 member (answering (Inr (plain_response 500 None)))
            ''Fitness'' ''2025-11-17'' None)
       = [(slots2_request member (answering (Inr (plain_response 500 None)))
             20061 None ''2025-11-17'' None,
           Inr (plain_response 500 None))]
   \<and> is_failure (fst (get_available_slots2 member
         (answering (Inr (plain_response 500 None))) ''Fitness'' ''2025-11-17'' None))"
proof -
  have h2: "is_success (fst (get_available_slots authenticated
       (answering (Inr (plain_response 200 (Some slots_body)))) ''Fitness'' ''2025-11-17'' None))"
    by (simp add: get_available_slots_def get_available_slots_try_def slots_response_def
          json_def py_get_def dict_get_def py_iter_def parse_slot_def slots_body_def
          one_slot_def location_map_def authenticated_def answering_def plain_response_def
          is_success_def result_get_def Let_def)
  have h3: "snd (get_available_slots authenticated (answering (Inr (plain_response 500 None)))
            ''Fitness'' ''2025-11-17'' None)
       = [(slots_request ''20061'' ''Fitness'' ''2025-11-17'' None,
           Inr (plain_response 500 None))]"
    by (simp add: get_available_slots_def get_available_slots_try_def location_map_def
          authenticated_def send_answering Let_def split: sum.splits)
  have h3': "(case (Inr (plain_response 500 None) :: exn + response) of
               Inl e \<Rightarrow> True | Inr r \<Rightarrow> status_code r \<noteq> 200)"
    by (simp add: plain_response_def)
  note h4 = member_logged_in [of "Inr (plain_response 500 None)"]
  note h4' = strptime_answering [of "Inr (plain_response 500 None)"]
  have h5: "is_success (fst (get_available_slots2 member
         (answering (Inr (plain_response 200 (Some (PList [one_slot])))))
         ''Fitness'' ''2025-11-17'' None))"
    by (simp add: get_available_slots2_def slots2_try_def raise_for_status_def json_def
          LOCATIONS_def member_logged_in strptime_answering send_answering
          plain_response_def is_success_def result_get_def Let_def)
  have h6: "snd (get_available_slots2 member (answering (Inr (plain_response 500 None)))
            ''Fitness'' ''2025-11-17'' None)
       = [(slots2_request member (answering (Inr (plain_response 500 None)))
             20061 None ''2025-11-17'' None,
           Inr (plain_response 500 None))]"
    by (simp add: get_available_slots2_def slots2_try_def raise_for_status_def
          LOCATIONS_def member_logged_in strptime_answering send_answering Let_def
          plain_response_def
        split: sum.splits)
  have h6': "(case (Inr (plain_response 500 None) :: exn + response) of
               Inl e \<Rightarrow> True | Inr r \<Rightarrow> 400 \<le> status_code r \<and> status_code r < 600)"
    by (simp add: plain_response_def)
  from h2 h3 h3' h4 h4' h5 h6 h6'
    get_available_slots_failures
      [where ca = authenticated
         and wa = "answering (Inr (plain_response 200 (Some slots_body)))"
         and la = "''Fitness''" and da = "''2025-11-17''" and sa = None
         and cb = authenticated and wb = "answering (Inr (plain_response 500 None))"
         and lb = "''Fitness''" and db = "''2025-11-17''" and sb = None
         and rqb = "slots_request ''20061'' ''Fitness'' ''2025-11-17'' None"
         and outb = "Inr (plain_response 500 None)"
         and ?c2.0 = member and ?w2.0 = "answering (Inr (plain_response 500 None))"
         and ?b2.0 = True and ?d2.0 = "''2025-11-17''" and ?day2.0 = "''2025-11-17''"
         and ?l2.0 = "''Fitness''" and ?s2.0 = None
         and ?c3.0 = member
         and ?w3.0 = "answering (Inr (plain_response 200 (Some (PList [one_slot]))))"
         and ?l3.0 = "''Fitness''" and ?d3.0 = "''2025-11-17''" and ?s3.0 = None
         and ?c4.0 = member and ?w4.0 = "answering (Inr (plain_response 500 None))"
         and ?l4.0 = "''Fitness''" and ?d4.0 = "''2025-11-17''" and ?s4.0 = None
         and ?rq4.0 = "slots2_request member (answering (Inr (plain_response 500 None)))
                         20061 None ''2025-11-17'' None"
         and ?out4.0 = "Inr (plain_response 500 None)"]
  show ?thesis by (simp add: plain_response_def)
qed

subsection \<open>The two clients on the same vendor answer\<close>

text \<open>
  Claim C6 as stated fails: both clients are logged in, both are asked for the Fitness
  slots of the same day, and the vendor gives every request the same answer, status 200
  with a JSON list of one slot. \<^verbatim>\<open>get_available_slots\<close> of v1 returns a failure (it
  calls \<^verbatim>\<open>get\<close> on the list), that of v2 returns success.
\<close>

theorem same_answer_different_success:
  "is_authenticated authenticated
   \<and> is_logged_in member (answering (Inr (plain_response 200 (Some (PList [one_slot])))))
       = Inr True
   \<and> send (answering (Inr (plain_response 200 (Some (PList [one_slot])))))
        (slots_request ''20061'' ''Fitness'' ''2025-11-17'' None)
       = send (answering (Inr (plain_response 200 (Some (PList [one_slot])))))
           (slots2_request member
              (answering (Inr (plain_response 200 (Some (PList [one_slot])))))
              20061 None ''2025-11-17'' None)
   \<and> is_failure (fst (get_available_slots authenticated
         (answering (Inr (plain_response 200 (Some (PList [one_slot])))))
         ''Fitness'' ''2025-11-17'' None))
   \<and> is_success (fst (get_available_slots2 member
         (answering (Inr (plain_response 200 (Some (PList [one_slot])))))
         ''Fitness'' ''2025-11-17'' None))"
  by (simp add: get_available_slots_def get_available_slots_try_def slots_response_def
        json_def py_get_def location_map_def authenticated_def
        get_available_slots2_def slots2_try_def raise_for_status_def
        LOCATIONS_def member_logged_in strptime_answering send_answering
        plain_response_def is_success_def is_failure_def result_get_def v1_error_def Let_def)

lemma locations_agree: "location_map l = None \<longleftrightarrow> LOCATIONS l = None"
  by (simp add: location_map_def LOCATIONS_def)

lemma is_logged_in_send: "is_logged_in c (w\<lparr>send := f\<rparr>) = is_logged_in c w"
  by (simp add: is_logged_in_def)

lemma v1_success_v2_success:
  assumes "is_logged_in c2 w = Inr True" and "strptime w d = Inr day"
    and "is_success (fst (get_available_slots c (w\<lparr>send := \<lambda>rq. out\<rparr>) l d s))"
  shows "is_success (fst (get_available_slots2 c2 (w\<lparr>send := \<lambda>rq. out\<rparr>) l d s))"
proof -
  from assms(3) obtain r where r: "out = Inr r" "status_code r = 200" "json_body r \<noteq> None"
    and loc: "location_map l \<noteq> None"
    by (auto simp: get_available_slots_def get_available_slots_try_def slots_response_def
          Let_def is_success_def result_get_def v1_error_def json_def not_authenticated_def
        split: sum.splits option.splits prod.splits if_splits)
  from loc obtain p rs where "LOCATIONS l = Some (p, rs)"
    using locations_agree [of l] by (cases "LOCATIONS l") auto
  with r assms(1,2) show ?thesis
    by (auto simp: get_available_slots2_def slots2_try_def raise_for_status_def json_def
          is_logged_in_send Let_def is_success_def result_get_def)
qed

lemma both_fail_on_error:
  assumes "is_authenticated c" and "is_logged_in c2 w = Inr True"
    and "strptime w d = Inr day"
    and "case out of Inl e \<Rightarrow> True | Inr r \<Rightarrow> 400 \<le> status_code r \<and> status_code r < 600"
  shows "is_failure (fst (get_available_slots c (w\<lparr>send := \<lambda>rq. out\<rparr>) l d s))
         \<and> is_failure (fst (get_available_slots2 c2 (w\<lparr>send := \<lambda>rq. out\<rparr>) l d s))"
  using assms
  by (auto simp: get_available_slots_def get_available_slots_try_def slots_response_def
        get_available_slots2_def slots2_try_def raise_for_status_def is_logged_in_send
        v2_except_def api_error_def request_failed_def v2_message_def
        Let_def is_failure_def result_get_def v1_error_def
      split: sum.splits option.splits prod.splits exn.splits)

text \<open>
  Claim C6, amended. The two clients are not interchangeable, but on the same input and
  with the vendor giving every request the same outcome, both clients logged in and the
  date parsing: whenever \<^verbatim>\<open>get_available_slots\<close> of v1 returns success, that of v2
  returns success; and when the request raises or the vendor answers with a status from
  400 to 599, both return a failure.
\<close>

theorem slots_clients_agreement:
  "(is_logged_in c2 w = Inr True \<and> strptime w d = Inr day
      \<and> is_success (fst (get_available_slots c (w\<lparr>send := \<lambda>rq. out\<rparr>) l d s)) \<longrightarrow>
      is_success (fst (get_available_slots2 c2 (w\<lparr>send := \<lambda>rq. out\<rparr>) l d s)))
   \<and> (is_authenticated c' \<and> is_logged_in c2' w' = Inr True \<and> strptime w' d' = Inr day'
      \<and> (case out' of Inl e \<Rightarrow> True
          | Inr r \<Rightarrow> 400 \<le> status_code r \<and> status_code r < 600) \<longrightarrow>
      is_failure (fst (get_available_slots c' (w'\<lparr>send := \<lambda>rq. out'\<rparr>) l' d' s'))
      \<and> is_failure (fst (get_available_slots2 c2' (w'\<lparr>send := \<lambda>rq. out'\<rparr>) l' d' s')))"
  using v1_success_v2_success [of c2 w d day c out l s]
    both_fail_on_error [of c' c2' w' d' day' out' l' s']
  by blast

theorem slots_clients_agreement_witness:
  "is_logged_in member (answering (Inl (LibraryError ''down''))) = Inr True
   \<and> strptime (answering (Inl (LibraryError ''down''))) ''2025-11-17'' = Inr ''2025-11-17''
   \<and> is_success (fst (get_available_slots authenticated
        ((answering (Inl (LibraryError ''down'')))
           \<lparr>send := \<lambda>rq. Inr (plain_response 200 (Some slots_body))\<rparr>)
        ''Fitness'' ''2025-11-17'' None))
   \<and> is_success (fst (get_available_slots2 member
        ((answering (Inl (LibraryError ''down'')))
           \<lparr>send := \<lambda>rq. Inr (plain_response 200 (Some slots_body))\<rparr>)
        ''Fitness'' ''2025-11-17'' None))
   \<and> is_authenticated authenticated
   \<and> is_failure (fst (get_available_slots authenticated
        ((answering (Inl (LibraryError ''down'')))
           \<lparr>send := \<lambda>rq. Inr (plain_response 503 None)\<rparr>)
        ''Fitness'' ''2025-11-17'' None))
   \<and> is_failure (fst (get_available_slots2 member
        ((answering (Inl (LibraryError ''down'')))
           \<lparr>send := \<lambda>rq. Inr (plain_response 503 None)\<rparr>)
        ''Fitness'' ''2025-11-17'' None))"
proof -
  note h1 = member_logged_in [of "Inl (LibraryError ''down'')"]
  note h2 = strptime_answering [of "Inl (LibraryError ''down'')"]
  have h3: "is_success (fst (get_available_slots authenticated
        ((answering (Inl (LibraryError ''down'')))
           \<lparr>send := \<lambda>rq. Inr (plain_response 200 (Some slots_body))\<rparr>)
        ''Fitness'' ''2025-11-17'' None))"
    by (simp add: get_available_slots_def get_available_slots_try_def slots_response_def
          json_def py_get_def dict_get_def py_iter_def parse_slot_def slots_body_def
          one_slot_def location_map_def authenticated_def plain_response_def
          is_success_def result_get_def Let_def)
  have h4: "is_authenticated authenticated"
    by (simp add: authenticated_def)
  have h5: "(case (Inr (plain_response 503 None) :: exn + response) of
               Inl e \<Rightarrow> True | Inr r \<Rightarrow> 400 \<le> status_code r \<and> status_code r < 600)"
    by (simp add: plain_response_def)
  from h1 h2 h3 h4 h5
    slots_clients_agreement
      [where ?c2.0 = member and w = "answering (Inl (LibraryError ''down''))"
         and d = "''2025-11-17''" and day = "''2025-11-17''" and c = authenticated
         and out = "Inr (plain_response 200 (Some slots_body))"
         and l = "''Fitness''" and s = None
         and c' = authenticated and c2' = member
         and w' = "answering (Inl (LibraryError ''down''))"
         and d' = "''2025-11-17''" and day' = "''2025-11-17''"
         and out' = "Inr (plain_response 503 None)" and l' = "''Fitness''" and s' = None]
  show ?thesis by simp
qed

subsection \<open>The consecutive-run finder\<close>




lemma valid_run_Nil [simp]: "valid_run []"
  by (simp add: valid_run_def)














end
